theory Spec2Isabelle
  imports Main "HOL-Library.Multiset"
begin

section \<open>Table cells\<close>

text \<open>
  The three notebooks (01 clean raw data, 02 reformat data, 03 create k-fold data sets)
  work on pandas data frames. A frame is modelled as the list of its rows, a row as a
  record with one field per column, and a cell as an option: \<open>None\<close> is the missing
  value (NaN). The numeric columns read by the properties below hold whole numbers
  (minutes, days, scores, indicators), so a numeric cell is an \<open>int option\<close>.
  Comparisons with a missing value are false, arithmetic with one is missing. Sums and
  differences are exact: pandas computes them on 64-bit floats, or on 64-bit integers
  when no cell of the column is missing, and both are exact for the whole numbers below
  2 to the power 53 in magnitude, far beyond any number of minutes; the columns are
  taken to stay in that range.
\<close>

type_synonym num = "int option"
type_synonym cat = "string option"

definition isnull :: "'a option \<Rightarrow> bool" where
  "isnull c = (c = None)"

definition notnull :: "'a option \<Rightarrow> bool" where
  "notnull c = (c \<noteq> None)"

definition cell_eq :: "'a option \<Rightarrow> 'a \<Rightarrow> bool" where
  "cell_eq c k = (case c of None \<Rightarrow> False | Some v \<Rightarrow> v = k)"

definition cell_ge :: "num \<Rightarrow> int \<Rightarrow> bool" where
  "cell_ge c k = (case c of None \<Rightarrow> False | Some v \<Rightarrow> v \<ge> k)"

definition cell_gt :: "num \<Rightarrow> int \<Rightarrow> bool" where
  "cell_gt c k = (case c of None \<Rightarrow> False | Some v \<Rightarrow> v > k)"

definition cell_le :: "num \<Rightarrow> int \<Rightarrow> bool" where
  "cell_le c k = (case c of None \<Rightarrow> False | Some v \<Rightarrow> v \<le> k)"

definition cell_lt :: "num \<Rightarrow> int \<Rightarrow> bool" where
  "cell_lt c k = (case c of None \<Rightarrow> False | Some v \<Rightarrow> v < k)"

definition cell_add :: "num \<Rightarrow> num \<Rightarrow> num" where
  "cell_add a b = (case a of None \<Rightarrow> None | Some x \<Rightarrow>
                    (case b of None \<Rightarrow> None | Some y \<Rightarrow> Some (x + y)))"

definition cell_sub :: "num \<Rightarrow> num \<Rightarrow> num" where
  "cell_sub a b = (case a of None \<Rightarrow> None | Some x \<Rightarrow>
                    (case b of None \<Rightarrow> None | Some y \<Rightarrow> Some (x - y)))"

text \<open>
  \<open>Series.map(d)\<close> with a dict \<open>d\<close>: a value that is a key of the dict becomes the
  dict's value, a value that is no key becomes missing, and a missing value becomes what
  the dict holds under the key \<open>np.nan\<close> (missing, when the dict has no such key). The
  dict is given as a map on the proper keys and the cell stored under \<open>np.nan\<close>.
\<close>

definition series_map :: "('k \<rightharpoonup> 'v) \<Rightarrow> 'v option \<Rightarrow> 'k option \<Rightarrow> 'v option" where
  "series_map d nan_value c = (case c of None \<Rightarrow> nan_value | Some k \<Rightarrow> d k)"

text \<open>
  \<open>str.strip()\<close> and \<open>str.rstrip()\<close> remove the whitespace characters. A
  \<open>char\<close> stands for a code point below 256; the whitespace among them is tab, line
  feed, vertical tab, form feed, carriage return, the four separators 28 to 31, the
  space, the next-line character 133 and the no-break space 160. Labels are taken to
  hold no code point from 256 upwards.
\<close>

definition is_space :: "char \<Rightarrow> bool" where
  "is_space c = (of_char c \<in> {9, 10, 11, 12, 13, 28, 29, 30, 31, 32, 133, 160 :: nat})"

definition rstrip :: "string \<Rightarrow> string" where
  "rstrip s = rev (dropWhile is_space (rev s))"

definition strip :: "string \<Rightarrow> string" where
  "strip s = rstrip (dropWhile is_space s)"

section \<open>The cleaned table\<close>

text \<open>
  One row of \<open>cleaned_data\<close>, the file the Cleaner writes and the Reformatter reads.
  The columns that none of the properties below reads are left out: \<open>age\<close>,
  \<open>weekday\<close>, \<open>arrival_time_3_hour_period\<close>, \<open>stroke_severity\<close>, the fifteen
  severity sub-score columns, \<open>disability_6_month\<close> and the ten "no but" reason
  columns.
\<close>

record clean_row =
  id :: int
  stroke_team :: string
  male :: num
  infarction :: num
  onset_to_arrival_time :: num
  onset_known :: num
  precise_onset_known :: num
  onset_during_sleep :: num
  arrive_by_ambulance :: num
  call_to_ambulance_arrival_time :: num
  ambulance_on_scene_time :: num
  ambulance_travel_to_hospital_time :: num
  ambulance_wait_time_at_hospital :: num
  month :: num
  year :: num
  arrival_to_scan_time :: num
  thrombolysis :: num
  scan_to_thrombolysis_time :: num
  thrombectomy :: num
  arrival_to_thrombectomy_time :: num
  congestive_heart_failure :: num
  hypertension :: num
  atrial_fibrillation :: num
  diabetes :: num
  prior_stroke_tia :: num
  afib_antiplatelet :: num
  afib_anticoagulant :: num
  afib_vit_k_anticoagulant :: num
  afib_doac_anticoagulant :: num
  afib_heparin_anticoagulant :: num
  new_afib_diagnosis :: num
  any_afib_diagnosis :: num
  prior_disability :: num
  nihss_complete :: num
  discharge_destination :: cat
  death :: num
  discharge_disability :: num
  thrombolysis_no_not_available :: num
  thrombolysis_no_out_of_hours :: num
  thrombolysis_no_scan_not_quick_enough :: num
  thrombolysis_no_no_reason :: num

section \<open>The Cleaner (01 clean raw data)\<close>

text \<open>
  One row of the raw extract, with the raw column names. \<open>FirstArrivalMonthYear\<close> is
  text such as \<open>Jan-16\<close> that \<open>pd.to_datetime\<close> parses; the model holds the parsed
  (month, year) pair. Raw columns that are only copied or that feed a column left out
  of \<open>clean_row\<close> are absent.
\<close>

record raw_row =
  PatientId :: int
  TeamName :: string
  S1Gender :: cat
  S2StrokeType :: cat
  OnsettoArrivalMinutes :: num
  S1OnsetTimeType :: cat
  S1OnsetDateType :: cat
  S1ArriveByAmbulance :: cat
  ArrivalPatientLocationtoArrivalMinutes :: num
  CallConnectedtoArrivalMinutes :: num
  DeparturePatientLocationtoArrivalMinutes :: num
  WheelsStoptoArrivalMinutes :: num
  FirstArrivalMonthYear :: "(int \<times> int) option"
  ArrivaltoBrainImagingMinutes :: num
  S2Thrombolysis :: cat
  ArrivaltoThrombolysisMinutes :: num
  ArrivaltoArterialPunctureMinutes :: num
  S2CoMCongestiveHeartFailure :: cat
  S2CoMHypertension :: cat
  S2CoMAtrialFibrillation :: cat
  S2CoMDiabetes :: cat
  S2CoMStrokeTIA :: cat
  S2CoMAFAntiplatelet :: cat
  S2CoMAFAnticoagulent :: cat
  S2CoMAFAnticoagulentVitK :: num
  S2CoMAFAnticoagulentDOAC :: num
  S2CoMAFAnticoagulentHeparin :: num
  S2NewAFDiagnosis :: cat
  S2RankinBeforeStroke :: num
  S2NihssArrivalLoc :: num
  S2NihssArrivalLocQuestions :: num
  S2NihssArrivalLocCommands :: num
  S2NihssArrivalBestGaze :: num
  S2NihssArrivalVisual :: num
  S2NihssArrivalFacialPalsy :: num
  S2NihssArrivalMotorArmLeft :: num
  S2NihssArrivalMotorArmRight :: num
  S2NihssArrivalMotorLegLeft :: num
  S2NihssArrivalMotorLegRight :: num
  S2NihssArrivalLimbAtaxia :: num
  S2NihssArrivalSensory :: num
  S2NihssArrivalBestLanguage :: num
  S2NihssArrivalDysarthria :: num
  S2NihssArrivalExtinctionInattention :: num
  S7DischargeType :: cat
  ArrivalToDeathDays :: num
  S7RankinDischarge :: num
  S2ThrombolysisNoReason :: cat

subsection \<open>The dicts\<close>

definition gender :: "string \<rightharpoonup> int" where
  "gender = map_of [(''M'', 1), (''F'', 0)]"

definition infarction_dict :: "string \<rightharpoonup> int" where
  "infarction_dict = map_of [(''I'', 1), (''PIH'', 0)]"

definition onset_known_dict :: "string \<rightharpoonup> int" where
  "onset_known_dict = map_of [(''NK'', 0), (''P'', 1), (''BE'', 1)]"

definition precise_onset_known_dict :: "string \<rightharpoonup> int" where
  "precise_onset_known_dict = map_of [(''P'', 1), (''BE'', 0), (''NK'', 0)]"

definition sleep :: "string \<rightharpoonup> int" where
  "sleep = map_of [(''DS'', 1), (''P'', 0), (''BE'', 0)]"

definition by_ambulance :: "string \<rightharpoonup> int" where
  "by_ambulance = map_of [(''Y'', 1), (''N'', 0)]"

definition thrombolysis_dict :: "string \<rightharpoonup> int" where
  "thrombolysis_dict = map_of [(''Y'', 1), (''N'', 0), (''NB'', 0)]"

text \<open>\<open>comorbid_marker\<close> also holds \<open>np.nan: np.nan\<close>: it is mapped with \<open>None\<close>.\<close>

definition comorbid_marker :: "string \<rightharpoonup> int" where
  "comorbid_marker = map_of [(''Y'', 1), (''N'', 0), (''NB'', 0)]"

text \<open>\<open>anticoag_type_map\<close> also holds \<open>np.nan: 0\<close>: it is mapped with \<open>Some 0\<close>.\<close>

definition anticoag_type_map :: "int \<rightharpoonup> int" where
  "anticoag_type_map = map_of [(1, 1), (0, 0)]"

text \<open>\<open>new_afib\<close> also holds \<open>np.nan: 0\<close>.\<close>

definition new_afib :: "string \<rightharpoonup> int" where
  "new_afib = map_of [(''Y'', 1), (''N'', 0)]"

text \<open>\<open>discharge\<close> also holds \<open>np.NaN: 'missing'\<close>.\<close>

definition discharge :: "string \<rightharpoonup> string" where
  "discharge = map_of
     [(''CH'', ''care_home''), (''D'', ''died''), (''H'', ''home''),
      (''SE'', ''somewhere_else''), (''TC'', ''community_team_or_esd''),
      (''TCN'', ''community_team_or_esd''), (''TN'', ''non_ssnap_hospital_team''),
      (''T'', ''ssnap_hospital_team'')]"

text \<open>
  \<open>make_no_thrombolysis(category)\<close>: the dict maps every category and \<open>np.nan\<close> to 0,
  then the given category to 1.
\<close>

definition make_no_thrombolysis :: "string \<Rightarrow> cat \<Rightarrow> num" where
  "make_no_thrombolysis category c =
     (let thrombolysis_no = map_of [(''TNA'', 0), (''OTSH'', 0), (''USQE'', 0), (''N'', 0)];
          thrombolysis_no = thrombolysis_no(category \<mapsto> 1)
      in series_map thrombolysis_no (Some 0) c)"

subsection \<open>Row-wise minimum and maximum\<close>

text \<open>\<open>DataFrame.min(axis=1)\<close> and \<open>max(axis=1)\<close> skip the missing cells of the row; a
  row with no value at all gives a missing result.\<close>

definition row_min :: "num list \<Rightarrow> num" where
  "row_min cs = (case List.map_filter (\<lambda>c. c) cs of
                   [] \<Rightarrow> None | v # vs \<Rightarrow> Some (fold min vs v))"

definition row_max :: "num list \<Rightarrow> num" where
  "row_max cs = (case List.map_filter (\<lambda>c. c) cs of
                   [] \<Rightarrow> None | v # vs \<Rightarrow> Some (fold max vs v))"

text \<open>The list \<open>nihss\<close> of the fifteen severity sub-score columns, as cells of a row.\<close>

definition nihss :: "raw_row \<Rightarrow> num list" where
  "nihss raw =
     [S2NihssArrivalLoc raw, S2NihssArrivalLocQuestions raw,
      S2NihssArrivalLocCommands raw, S2NihssArrivalBestGaze raw,
      S2NihssArrivalVisual raw, S2NihssArrivalFacialPalsy raw,
      S2NihssArrivalMotorArmLeft raw, S2NihssArrivalMotorArmRight raw,
      S2NihssArrivalMotorLegLeft raw, S2NihssArrivalMotorLegRight raw,
      S2NihssArrivalLimbAtaxia raw, S2NihssArrivalSensory raw,
      S2NihssArrivalBestLanguage raw, S2NihssArrivalDysarthria raw,
      S2NihssArrivalExtinctionInattention raw]"

subsection \<open>Creating the clean version of a row\<close>

text \<open>
  The cells of the notebook up to "Deal with unusual results", in their order. The
  antiplatelet cell is set to 0 where atrial fibrillation is 0 and the cell is missing;
  \<open>afib_anticoagulant\<close> is mapped a second time, with \<open>anticoag_type_map\<close>.
\<close>

definition create_clean :: "raw_row \<Rightarrow> clean_row" where
  "create_clean raw =
    (let atrial_fibrillation0 = series_map comorbid_marker None (S2CoMAtrialFibrillation raw);
         afib_antiplatelet0 = series_map comorbid_marker None (S2CoMAFAntiplatelet raw);
         afib_antiplatelet1 =
           (if cell_eq atrial_fibrillation0 0 \<and> isnull afib_antiplatelet0
            then Some 0 else afib_antiplatelet0);
         afib_anticoagulant0 = series_map comorbid_marker None (S2CoMAFAnticoagulent raw);
         new_afib_diagnosis0 = series_map new_afib (Some 0) (S2NewAFDiagnosis raw)
     in \<lparr>id = PatientId raw,
         stroke_team = rstrip (TeamName raw),
         male = series_map gender None (S1Gender raw),
         infarction = series_map infarction_dict None (S2StrokeType raw),
         onset_to_arrival_time = OnsettoArrivalMinutes raw,
         onset_known = series_map onset_known_dict None (S1OnsetTimeType raw),
         precise_onset_known = series_map precise_onset_known_dict None (S1OnsetTimeType raw),
         onset_during_sleep = series_map sleep None (S1OnsetDateType raw),
         arrive_by_ambulance = series_map by_ambulance None (S1ArriveByAmbulance raw),
         call_to_ambulance_arrival_time =
           cell_sub (ArrivalPatientLocationtoArrivalMinutes raw)
                    (CallConnectedtoArrivalMinutes raw),
         ambulance_on_scene_time =
           cell_sub (DeparturePatientLocationtoArrivalMinutes raw)
                    (ArrivalPatientLocationtoArrivalMinutes raw),
         ambulance_travel_to_hospital_time =
           cell_sub (WheelsStoptoArrivalMinutes raw)
                    (DeparturePatientLocationtoArrivalMinutes raw),
         ambulance_wait_time_at_hospital = cell_sub (Some 0) (WheelsStoptoArrivalMinutes raw),
         month = map_option fst (FirstArrivalMonthYear raw),
         year = map_option snd (FirstArrivalMonthYear raw),
         arrival_to_scan_time = ArrivaltoBrainImagingMinutes raw,
         thrombolysis = series_map thrombolysis_dict None (S2Thrombolysis raw),
         scan_to_thrombolysis_time =
           cell_sub (ArrivaltoThrombolysisMinutes raw) (ArrivaltoBrainImagingMinutes raw),
         thrombectomy = Some (if isnull (ArrivaltoArterialPunctureMinutes raw) then 0 else 1),
         arrival_to_thrombectomy_time = ArrivaltoArterialPunctureMinutes raw,
         congestive_heart_failure =
           series_map comorbid_marker None (S2CoMCongestiveHeartFailure raw),
         hypertension = series_map comorbid_marker None (S2CoMHypertension raw),
         atrial_fibrillation = atrial_fibrillation0,
         diabetes = series_map comorbid_marker None (S2CoMDiabetes raw),
         prior_stroke_tia = series_map comorbid_marker None (S2CoMStrokeTIA raw),
         afib_antiplatelet = afib_antiplatelet1,
         afib_anticoagulant = series_map anticoag_type_map (Some 0) afib_anticoagulant0,
         afib_vit_k_anticoagulant =
           series_map anticoag_type_map (Some 0) (S2CoMAFAnticoagulentVitK raw),
         afib_doac_anticoagulant =
           series_map anticoag_type_map (Some 0) (S2CoMAFAnticoagulentDOAC raw),
         afib_heparin_anticoagulant =
           series_map anticoag_type_map (Some 0) (S2CoMAFAnticoagulentHeparin raw),
         new_afib_diagnosis = new_afib_diagnosis0,
         any_afib_diagnosis = row_max [atrial_fibrillation0, new_afib_diagnosis0],
         prior_disability = S2RankinBeforeStroke raw,
         nihss_complete = Some (if row_min (nihss raw) = Some (- 1) then 0 else 1),
         discharge_destination = series_map discharge (Some ''missing'') (S7DischargeType raw),
         death = Some (if cell_ge (ArrivalToDeathDays raw) 0 then 1 else 0),
         discharge_disability = S7RankinDischarge raw,
         thrombolysis_no_not_available =
           make_no_thrombolysis ''TNA'' (S2ThrombolysisNoReason raw),
         thrombolysis_no_out_of_hours =
           make_no_thrombolysis ''OTSH'' (S2ThrombolysisNoReason raw),
         thrombolysis_no_scan_not_quick_enough =
           make_no_thrombolysis ''USQE'' (S2ThrombolysisNoReason raw),
         thrombolysis_no_no_reason =
           make_no_thrombolysis ''N'' (S2ThrombolysisNoReason raw)\<rparr>)"

subsection \<open>Dealing with unusual results\<close>

text \<open>
  The issue log has one row per row of \<open>cleaned_data\<close>: the team and one boolean
  column per kind of issue.
\<close>

record issue_row =
  issue_stroke_team :: string
  time_some_missing :: bool
  time_negative :: bool
  time_zero :: bool
  times_but_no_amb :: bool
  call_time_high :: bool
  scene_time_high :: bool
  travel_time_high :: bool
  wait_time_high :: bool
  onset_negative :: bool
  onset_unknown :: bool
  anticoag_discrep :: bool
  inconsistent_death :: bool
  missing_stroke_type :: bool

definition amb_col :: "clean_row \<Rightarrow> num list" where
  "amb_col r = [call_to_ambulance_arrival_time r, ambulance_on_scene_time r,
                ambulance_travel_to_hospital_time r, ambulance_wait_time_at_hospital r]"

definition amb_except_wait :: "clean_row \<Rightarrow> num list" where
  "amb_except_wait r = [call_to_ambulance_arrival_time r, ambulance_on_scene_time r,
                        ambulance_travel_to_hospital_time r]"

definition set_amb_col_nan :: "clean_row \<Rightarrow> clean_row" where
  "set_amb_col_nan r =
     r\<lparr>call_to_ambulance_arrival_time := None, ambulance_on_scene_time := None,
       ambulance_travel_to_hospital_time := None, ambulance_wait_time_at_hospital := None\<rparr>"

text \<open>
  Unusual ambulance times. The masks are all computed first, on the table as it is before
  this pass; then the assignments are made one after the other; then the masks are
  logged.
\<close>

definition ambulance_pass :: "clean_row \<Rightarrow> issue_row \<Rightarrow> clean_row \<times> issue_row" where
  "ambulance_pass cleaned issues =
    (let time_all_missing = list_all isnull (amb_col cleaned);
         time_missing = list_ex isnull (amb_col cleaned);
         time_negative_m = list_ex (\<lambda>c. cell_lt c 0) (amb_col cleaned);
         time_zero_m = list_ex (\<lambda>c. cell_eq c 0) (amb_except_wait cleaned);
         times_but_no_amb_m =
           (cell_eq (arrive_by_ambulance cleaned) 0 \<and>
            (notnull (call_to_ambulance_arrival_time cleaned) \<or>
             notnull (ambulance_on_scene_time cleaned) \<or>
             notnull (ambulance_travel_to_hospital_time cleaned) \<or>
             notnull (ambulance_wait_time_at_hospital cleaned)));
         call_time_high_m = cell_gt (call_to_ambulance_arrival_time cleaned) 1440;
         scene_time_high_m = cell_gt (ambulance_on_scene_time cleaned) 720;
         travel_time_high_m = cell_gt (ambulance_travel_to_hospital_time cleaned) 360;
         wait_time_high_m = cell_gt (ambulance_wait_time_at_hospital cleaned) 720;
         c = (if time_missing then set_amb_col_nan cleaned else cleaned);
         c = (if time_negative_m then set_amb_col_nan c else c);
         c = (if time_zero_m then set_amb_col_nan c else c);
         c = (if times_but_no_amb_m
              then (set_amb_col_nan c)\<lparr>arrive_by_ambulance := None\<rparr> else c);
         c = (if call_time_high_m then set_amb_col_nan c else c);
         c = (if scene_time_high_m then set_amb_col_nan c else c);
         c = (if travel_time_high_m then set_amb_col_nan c else c);
         c = (if wait_time_high_m then set_amb_col_nan c else c)
     in (c, issues\<lparr>time_some_missing := (\<not> time_all_missing \<and> time_missing),
                    time_negative := time_negative_m,
                    time_zero := time_zero_m,
                    times_but_no_amb := times_but_no_amb_m,
                    call_time_high := call_time_high_m,
                    scene_time_high := scene_time_high_m,
                    travel_time_high := travel_time_high_m,
                    wait_time_high := wait_time_high_m\<rparr>))"

text \<open>Unusual onset to arrival times.\<close>

definition onset_pass :: "clean_row \<Rightarrow> issue_row \<Rightarrow> clean_row \<times> issue_row" where
  "onset_pass cleaned issues =
    (let onset_negative_m = cell_le (onset_to_arrival_time cleaned) 0;
         onset_unknown_m = cell_eq (onset_known cleaned) 0;
         c = (if onset_negative_m then cleaned\<lparr>onset_to_arrival_time := None\<rparr> else cleaned);
         c = (if onset_unknown_m then c\<lparr>onset_to_arrival_time := None\<rparr> else c)
     in (c, issues\<lparr>onset_negative := onset_negative_m, onset_unknown := onset_unknown_m\<rparr>))"

text \<open>Inconsistent anticoagulant data.\<close>

definition anticoag_pass :: "clean_row \<Rightarrow> issue_row \<Rightarrow> clean_row \<times> issue_row" where
  "anticoag_pass cleaned issues =
    (let anticoag_discrep_m =
           (cell_eq (afib_anticoagulant cleaned) 0 \<and>
            (cell_eq (afib_vit_k_anticoagulant cleaned) 1 \<or>
             cell_eq (afib_doac_anticoagulant cleaned) 1 \<or>
             cell_eq (afib_heparin_anticoagulant cleaned) 1));
         c = (if anticoag_discrep_m
              then cleaned\<lparr>afib_anticoagulant := None, afib_vit_k_anticoagulant := None,
                           afib_doac_anticoagulant := None,
                           afib_heparin_anticoagulant := None\<rparr>
              else cleaned)
     in (c, issues\<lparr>anticoag_discrep := anticoag_discrep_m\<rparr>))"

text \<open>Inconsistent death markers.\<close>

definition death_pass :: "clean_row \<Rightarrow> issue_row \<Rightarrow> clean_row \<times> issue_row" where
  "death_pass cleaned issues =
    (let any_death =
           (cell_eq (death cleaned) 1 \<or> cell_eq (discharge_disability cleaned) 6 \<or>
            cell_eq (discharge_destination cleaned) ''died'');
         all_or_missing_death =
           ((cell_eq (death cleaned) 1 \<or> isnull (death cleaned)) \<and>
            (cell_eq (discharge_disability cleaned) 6 \<or>
             isnull (discharge_disability cleaned)) \<and>
            (cell_eq (discharge_destination cleaned) ''died'' \<or>
             isnull (discharge_destination cleaned)));
         c = (if any_death \<and> \<not> all_or_missing_death
              then cleaned\<lparr>death := None, discharge_disability := None,
                           discharge_destination := None\<rparr>
              else cleaned)
     in (c, issues\<lparr>inconsistent_death := (any_death \<and> \<not> all_or_missing_death)\<rparr>))"

text \<open>
  The whole notebook on one raw row: the clean row as it is at the end of the notebook,
  before the rows without stroke type are removed, and its row of the issue log.
  Every step reads the cells of one row only, so the table-wide assignments of the
  notebook are this function applied to each row.
\<close>

definition clean_and_log :: "raw_row \<Rightarrow> clean_row \<times> issue_row" where
  "clean_and_log raw =
    (let cleaned = create_clean raw;
         issues = \<lparr>issue_stroke_team = stroke_team cleaned,
                   time_some_missing = False, time_negative = False, time_zero = False,
                   times_but_no_amb = False, call_time_high = False,
                   scene_time_high = False, travel_time_high = False,
                   wait_time_high = False, onset_negative = False, onset_unknown = False,
                   anticoag_discrep = False, inconsistent_death = False,
                   missing_stroke_type = False\<rparr>;
         (cleaned, issues) = ambulance_pass cleaned issues;
         (cleaned, issues) = onset_pass cleaned issues;
         (cleaned, issues) = anticoag_pass cleaned issues;
         (cleaned, issues) = death_pass cleaned issues
     in (cleaned, issues\<lparr>missing_stroke_type := isnull (infarction cleaned)\<rparr>))"

text \<open>
  The two tables the notebook saves: \<open>new_cleaned_data\<close>, the rows of
  \<open>cleaned_data\<close> whose \<open>infarction\<close> is not missing, and \<open>issues\<close>.
\<close>

definition clean_raw_data :: "raw_row list \<Rightarrow> clean_row list \<times> issue_row list" where
  "clean_raw_data raw_data =
    (let cleaned_data = map (\<lambda>raw. fst (clean_and_log raw)) raw_data;
         issues = map (\<lambda>raw. snd (clean_and_log raw)) raw_data;
         new_cleaned_data = filter (\<lambda>r. notnull (infarction r)) cleaned_data
     in (new_cleaned_data, issues))"

section \<open>The Reformatter (02 reformat data)\<close>

definition min_hospital_thrombolysis_threshold :: int where
  "min_hospital_thrombolysis_threshold = 10"

definition min_hospital_admission_threshold :: int where
  "min_hospital_admission_threshold = 250"

definition set_duration_not_get_thrombolysis :: int where
  "set_duration_not_get_thrombolysis = - 100"

text \<open>
  The patient filters, one mask after the other. The onset-to-arrival mask is written
  in two steps in the notebook: \<open>mask = data[...] <= 0\<close>, then \<open>mask = mask == False\<close>.
\<close>

definition filter_patients :: "clean_row list \<Rightarrow> clean_row list" where
  "filter_patients all_data =
    (let data = filter (\<lambda>r. cell_ge (year r) 2016) all_data;
         data = filter (\<lambda>r. cell_eq (infarction r) 1) data;
         data = filter (\<lambda>r. cell_eq (arrive_by_ambulance r) 1) data;
         data = filter (\<lambda>r. cell_eq (thrombectomy r) 0) data;
         data = filter (\<lambda>r. cell_ge (prior_disability r) 0) data;
         data = filter (\<lambda>r. cell_ge (discharge_disability r) 0) data;
         data = filter (\<lambda>r. cell_le (onset_to_arrival_time r) 0 = False) data;
         data = filter (\<lambda>r. cell_eq (onset_known r) 1) data
     in data)"

definition strip_stroke_team :: "clean_row list \<Rightarrow> clean_row list" where
  "strip_stroke_team data = map (\<lambda>r. r\<lparr>stroke_team := strip (stroke_team r)\<rparr>) data"

text \<open>
  \<open>data.groupby(['stroke_team'])\<close>: one group per site label. The resulting series is
  the list of (label, value) pairs; pandas sorts the labels, the model keeps them in
  order of first appearance, which \<open>filter_stroke_team\<close> cannot tell apart since it
  only asks whether a label is among those kept. \<open>count()\<close> counts the rows of the
  group, \<open>sum()\<close> adds the thrombolysis indicators and skips the missing ones.
\<close>

definition admissions :: "clean_row list \<Rightarrow> string \<Rightarrow> int" where
  "admissions data t = int (length (filter (\<lambda>r. stroke_team r = t) data))"

definition groupby_count :: "clean_row list \<Rightarrow> (string \<times> int) list" where
  "groupby_count data = map (\<lambda>t. (t, admissions data t)) (remdups (map stroke_team data))"

definition nansum :: "num list \<Rightarrow> int" where
  "nansum cs = sum_list (map (\<lambda>c. case c of None \<Rightarrow> 0 | Some v \<Rightarrow> v) cs)"

definition treatments :: "clean_row list \<Rightarrow> string \<Rightarrow> int" where
  "treatments data t = nansum (map thrombolysis (filter (\<lambda>r. stroke_team r = t) data))"

definition groupby_sum_thrombolysis :: "clean_row list \<Rightarrow> (string \<times> int) list" where
  "groupby_sum_thrombolysis data =
     map (\<lambda>t. (t, treatments data t)) (remdups (map stroke_team data))"

definition filter_stroke_team ::
  "clean_row list \<Rightarrow> int \<Rightarrow> (string \<times> int) list \<Rightarrow> clean_row list" where
  "filter_stroke_team data min_threshold stroke_team_values =
     (let stroke_team_keep =
            map fst (filter (\<lambda>(t, v). v \<ge> min_threshold) stroke_team_values)
      in filter (\<lambda>r. stroke_team r \<in> set stroke_team_keep) data)"

definition filter_hospitals :: "clean_row list \<Rightarrow> clean_row list" where
  "filter_hospitals data0 =
     (let stroke_team_admissions = groupby_count data0;
          data = filter_stroke_team data0 min_hospital_admission_threshold
                   stroke_team_admissions;
          stroke_team_thrombolysis = groupby_sum_thrombolysis data;
          data = filter_stroke_team data min_hospital_thrombolysis_threshold
                   stroke_team_thrombolysis
      in data)"

text \<open>Scan-to-thrombolysis time becomes -100 where thrombolysis is 0.\<close>

definition edit_scan_to_thrombolysis :: "clean_row list \<Rightarrow> clean_row list" where
  "edit_scan_to_thrombolysis data =
     map (\<lambda>r. if cell_eq (thrombolysis r) 0
              then r\<lparr>scan_to_thrombolysis_time := Some set_duration_not_get_thrombolysis\<rparr>
              else r) data"

definition calculate_onset_to_thrombolysis :: "clean_row \<Rightarrow> num" where
  "calculate_onset_to_thrombolysis row =
     (if scan_to_thrombolysis_time row \<noteq> Some (- 100)
      then cell_add (cell_add (onset_to_arrival_time row) (arrival_to_scan_time row))
                    (scan_to_thrombolysis_time row)
      else Some (- 100))"

text \<open>
  The anonymised team code. \<open>random.seed(42)\<close> fixes the generator, so the value that
  \<open>randbelow(i + 1)\<close> returns at step \<open>i\<close> of shuffling a list of length \<open>n\<close> is a
  fixed number \<open>draw n i\<close>; the generator itself is library code and \<open>draw\<close> is a
  parameter. \<open>randbelow(i + 1)\<close> is below \<open>i + 1\<close>: the model reduces the parameter
  modulo \<open>i + 1\<close>, which changes nothing for a generator that keeps that contract.
  \<open>random.shuffle(x)\<close> is
  \<^verbatim>\<open>for i in reversed(range(1, len(x))): j = randbelow(i + 1); x[i], x[j] = x[j], x[i]\<close>
\<close>

fun shuffle_loop :: "(nat \<Rightarrow> nat) \<Rightarrow> nat \<Rightarrow> 'a list \<Rightarrow> 'a list" where
  "shuffle_loop randbelow 0 x = x"
| "shuffle_loop randbelow (Suc i) x =
     (let j = randbelow (Suc i) mod (Suc i + 1)
      in shuffle_loop randbelow i (x[Suc i := x ! j, j := x ! Suc i]))"

definition shuffle :: "(nat \<Rightarrow> nat \<Rightarrow> nat) \<Rightarrow> 'a list \<Rightarrow> 'a list" where
  "shuffle draw x = shuffle_loop (draw (length x)) (length x - 1) x"

text \<open>
  The branch taken when the lookup file does not exist: \<open>teams\<close> is
  \<open>list(set(data['stroke_team']))\<close>, then
  \<^verbatim>\<open>for i, j in enumerate(teams): teams_code_dict[j] = i + 1\<close>
\<close>

definition create_teams_code_dict ::
  "(nat \<Rightarrow> nat \<Rightarrow> nat) \<Rightarrow> string list \<Rightarrow> (string \<rightharpoonup> int)" where
  "create_teams_code_dict draw teams0 =
     (let teams = shuffle draw teams0
      in fold (\<lambda>(i, j) teams_code_dict. teams_code_dict(j \<mapsto> int i + 1))
              (enumerate 0 teams) Map.empty)"

text \<open>
  The branch taken when the file exists: its rows are read, the labels stripped and the
  dict filled row by row.
\<close>

definition load_teams_code_dict :: "(string \<times> int) list \<Rightarrow> (string \<rightharpoonup> int)" where
  "load_teams_code_dict teams_code_df =
     fold (\<lambda>(t, c) teams_code_dict. teams_code_dict(strip t \<mapsto> c))
          teams_code_df Map.empty"

text \<open>
  What a run of the notebook depends on besides its input files: the order in which the
  interpreter enumerates a set of strings (\<open>list(set(column))\<close> yields each distinct
  value once, in an order given by the hashes of the strings, which CPython salts per
  process), and the draws of the generator seeded with 42.
\<close>

record py_env =
  set_list :: "string list \<Rightarrow> string list"
  randbelow42 :: "nat \<Rightarrow> nat \<Rightarrow> nat"

definition teams_code_dict_of ::
  "py_env \<Rightarrow> (string \<times> int) list option \<Rightarrow> clean_row list \<Rightarrow> (string \<rightharpoonup> int)" where
  "teams_code_dict_of env teamcode_file data =
     (case teamcode_file of
        None \<Rightarrow> create_teams_code_dict (randbelow42 env) (set_list env (map stroke_team data))
      | Some teams_code_df \<Rightarrow> load_teams_code_dict teams_code_df)"

text \<open>
  A row of the reformatted table: the cleaned columns and the two new ones. The final
  \<open>data.drop(remove_features)\<close> removes columns (a fixed list, and every numeric
  column of standard deviation 0) and changes no cell; it is not modelled.
\<close>

record cohort_row = clean_row +
  onset_to_thrombolysis_time :: num
  stroke_team_id :: num

definition add_features :: "(string \<rightharpoonup> int) \<Rightarrow> clean_row \<Rightarrow> cohort_row" where
  "add_features teams_code_dict r =
     clean_row.extend r
       (cohort_row.fields (calculate_onset_to_thrombolysis r)
                          (teams_code_dict (stroke_team r)))"

definition reformat ::
  "py_env \<Rightarrow> (string \<times> int) list option \<Rightarrow> clean_row list \<Rightarrow> cohort_row list" where
  "reformat env teamcode_file all_data =
     (let data = filter_patients all_data;
          data = strip_stroke_team data;
          data = filter_hospitals data;
          data = edit_scan_to_thrombolysis data;
          teams_code_dict = teams_code_dict_of env teamcode_file data
      in map (add_features teams_code_dict) data)"

section \<open>The Fold Splitter (03 create k-fold data sets)\<close>

text \<open>
  \<open>Series.map(str)\<close>. The team column holds strings, which \<open>str\<close> returns as they
  are. A numeric column read from the csv file is either an integer column (no cell
  missing in the file, all values written without a decimal point) or a float column;
  \<open>str\<close> writes a whole float with a trailing \<open>.0\<close> (below 10 to the power 16) and a
  missing one as \<open>nan\<close>.
\<close>

definition digit_char :: "nat \<Rightarrow> char" where
  "digit_char d = char_of (48 + d)"

function str_nat :: "nat \<Rightarrow> string" where
  "str_nat n = (if n < 10 then [digit_char n] else str_nat (n div 10) @ [digit_char (n mod 10)])"
  by pat_completeness auto
termination
  by (relation "measure (\<lambda>n. n)") auto

declare str_nat.simps [simp del]

definition str_int :: "int \<Rightarrow> string" where
  "str_int i = (if i < 0 then CHR ''-'' # str_nat (nat (- i)) else str_nat (nat i))"

datatype dtype = Int64 | Float64

definition str_num :: "dtype \<Rightarrow> num \<Rightarrow> string" where
  "str_num t c =
     (case c of None \<Rightarrow> ''nan''
      | Some v \<Rightarrow> (case t of Int64 \<Rightarrow> str_int v | Float64 \<Rightarrow> str_int v @ ''.0''))"

text \<open>
  The stratification value of a row:
  \<^verbatim>\<open>strat = data['stroke_team'].map(str) + '-' + data['discharge_disability'].map(str)\<close>
  The parameter is the type of the \<open>discharge_disability\<close> column.
\<close>

definition strat :: "dtype \<Rightarrow> cohort_row \<Rightarrow> string" where
  "strat t r = stroke_team r @ ''-'' @ str_num t (discharge_disability r)"

text \<open>
  The key as the specification words it, for comparison: the anonymised site code and
  the outcome label, concatenated.
\<close>

definition spec_strat :: "dtype \<Rightarrow> cohort_row \<Rightarrow> string" where
  "spec_strat t r = str_num Int64 (stroke_team_id r) @ str_num t (discharge_disability r)"


text \<open>
  \<open>StratifiedKFold(n_splits, shuffle=True, random_state=13).split(X, y)\<close> is code of
  the scikit-learn library, not of the notebooks; the model follows the library
  (\<open>_BaseKFold.split\<close>, \<open>StratifiedKFold._make_test_folds\<close>, as from version
  0.22).

  The classes are the distinct labels in order of first appearance. \<open>y_order\<close> is the
  sorted array of the class codes, that is each class repeated as often as it occurs,
  class after class. \<open>allocation[i, c]\<close> counts the class \<open>c\<close> in
  \<open>y_order[i::n_splits]\<close>. For each class, fold number \<open>i\<close> is repeated
  \<open>allocation[i, c]\<close> times, the array is shuffled by the generator seeded with 13
  (\<open>for i in reversed(range(1, n)): j = interval(i); x[i], x[j] = x[j], x[i]\<close>, as in
  \<open>shuffle_loop\<close>) and handed out, in order, to the rows of the class. The draws of
  the generator are a parameter: \<open>rng c i\<close> is the draw at step \<open>i\<close> of the shuffle
  for the class number \<open>c\<close>.
\<close>

definition classes_of :: "'a list \<Rightarrow> 'a list" where
  "classes_of y = rev (remdups (rev y))"

definition class_index :: "'a list \<Rightarrow> 'a \<Rightarrow> nat" where
  "class_index classes c = length (takeWhile (\<lambda>z. z \<noteq> c) classes)"

text \<open>\<open>xs[i::n]\<close> for \<open>i\<close> below \<open>n\<close>: the elements at the positions \<open>i\<close>, \<open>i + n\<close>,
  \<open>i + 2n\<close>, ... of \<open>xs\<close>.\<close>

definition strided :: "nat \<Rightarrow> nat \<Rightarrow> 'a list \<Rightarrow> 'a list" where
  "strided i n xs = map (\<lambda>k. xs ! k) (filter (\<lambda>k. k mod n = i) [0..<length xs])"

definition make_test_folds :: "nat \<Rightarrow> (nat \<Rightarrow> nat \<Rightarrow> nat) \<Rightarrow> 'a list \<Rightarrow> nat list" where
  "make_test_folds n_splits rng y =
     (let classes = classes_of y;
          y_order = concat (map (\<lambda>c. replicate (count_list y c) c) classes);
          allocation = (\<lambda>i c. count_list (strided i n_splits y_order) c);
          folds_for_class = (\<lambda>c.
            (let folds = concat (map (\<lambda>i. replicate (allocation i c) i) [0..<n_splits])
             in shuffle_loop (rng (class_index classes c)) (length folds - 1) folds))
      in map (\<lambda>j. folds_for_class (y ! j) ! count_list (take j y) (y ! j)) [0..<length y])"






section \<open>Vocabulary of the properties\<close>

text \<open>A cell that holds an indicator: 0, 1 or missing.\<close>

definition indicator_value :: "num \<Rightarrow> bool" where
  "indicator_value c = (c = None \<or> c = Some 0 \<or> c = Some 1)"

text \<open>
  The indicator columns that the Cleaner derives: every column of \<open>cleaned_data\<close> that
  the notebook computes as a 0/1 marker (the ten "no but" columns are copies of raw
  columns and are not among them).
\<close>

definition indicator_fields :: "clean_row \<Rightarrow> num list" where
  "indicator_fields r =
     [male r, infarction r, onset_known r, precise_onset_known r, onset_during_sleep r,
      arrive_by_ambulance r, thrombolysis r, thrombectomy r,
      congestive_heart_failure r, hypertension r, atrial_fibrillation r, diabetes r,
      prior_stroke_tia r, afib_antiplatelet r, afib_anticoagulant r,
      afib_vit_k_anticoagulant r, afib_doac_anticoagulant r, afib_heparin_anticoagulant r,
      new_afib_diagnosis r, any_afib_diagnosis r, nihss_complete r, death r,
      thrombolysis_no_not_available r, thrombolysis_no_out_of_hours r,
      thrombolysis_no_scan_not_quick_enough r, thrombolysis_no_no_reason r]"

text \<open>Y/N/NB read as 1/0/0; a missing value, like any other code, read as missing.\<close>

definition yes_no :: "cat \<Rightarrow> num" where
  "yes_no c = (if c = Some ''Y'' then Some 1
               else if c = Some ''N'' \<or> c = Some ''NB'' then Some 0 else None)"

text \<open>
  The anticoagulant discrepancy in terms of the raw row: the raw "on anticoagulant"
  answer is not Y while one of the three raw sub-type columns is 1.
\<close>

definition anticoag_discrep_raw :: "raw_row \<Rightarrow> bool" where
  "anticoag_discrep_raw raw =
     (yes_no (S2CoMAFAnticoagulent raw) \<noteq> Some 1 \<and>
      (S2CoMAFAnticoagulentVitK raw = Some 1 \<or> S2CoMAFAnticoagulentDOAC raw = Some 1 \<or>
       S2CoMAFAnticoagulentHeparin raw = Some 1))"

text \<open>A raw row whose stroke type is unset: neither I nor PIH, so that the map gives
  a missing \<open>infarction\<close>.\<close>

definition stroke_type_unset :: "raw_row \<Rightarrow> bool" where
  "stroke_type_unset raw =
     (S2StrokeType raw \<noteq> Some ''I'' \<and> S2StrokeType raw \<noteq> Some ''PIH'')"

text \<open>Reading a decimal numeral back, to show that \<open>str_nat\<close> loses nothing.\<close>

definition nat_of_str :: "string \<Rightarrow> nat" where
  "nat_of_str s = foldl (\<lambda>a c. 10 * a + (of_char c - 48)) 0 s"

section \<open>Example tables\<close>

definition raw_example :: raw_row where
  "raw_example =
     \<lparr>PatientId = 1, TeamName = ''Royal Example Hospital  '', S1Gender = Some ''F'',
      S2StrokeType = Some ''I'', OnsettoArrivalMinutes = Some 95,
      S1OnsetTimeType = Some ''P'', S1OnsetDateType = Some ''P'',
      S1ArriveByAmbulance = Some ''Y'',
      ArrivalPatientLocationtoArrivalMinutes = Some (- 60),
      CallConnectedtoArrivalMinutes = Some (- 75),
      DeparturePatientLocationtoArrivalMinutes = Some (- 35),
      WheelsStoptoArrivalMinutes = Some (- 5),
      FirstArrivalMonthYear = Some (3, 2018), ArrivaltoBrainImagingMinutes = Some 20,
      S2Thrombolysis = Some ''Y'', ArrivaltoThrombolysisMinutes = Some 50,
      ArrivaltoArterialPunctureMinutes = None,
      S2CoMCongestiveHeartFailure = Some ''N'', S2CoMHypertension = Some ''Y'',
      S2CoMAtrialFibrillation = Some ''N'', S2CoMDiabetes = None,
      S2CoMStrokeTIA = Some ''NB'', S2CoMAFAntiplatelet = None,
      S2CoMAFAnticoagulent = None, S2CoMAFAnticoagulentVitK = None,
      S2CoMAFAnticoagulentDOAC = None, S2CoMAFAnticoagulentHeparin = None,
      S2NewAFDiagnosis = None, S2RankinBeforeStroke = Some 1,
      S2NihssArrivalLoc = Some 0, S2NihssArrivalLocQuestions = Some 1,
      S2NihssArrivalLocCommands = Some 0, S2NihssArrivalBestGaze = Some 0,
      S2NihssArrivalVisual = Some 0, S2NihssArrivalFacialPalsy = Some 2,
      S2NihssArrivalMotorArmLeft = Some 3, S2NihssArrivalMotorArmRight = Some 0,
      S2NihssArrivalMotorLegLeft = Some 2, S2NihssArrivalMotorLegRight = Some 0,
      S2NihssArrivalLimbAtaxia = Some 0, S2NihssArrivalSensory = Some 1,
      S2NihssArrivalBestLanguage = Some 0, S2NihssArrivalDysarthria = Some 1,
      S2NihssArrivalExtinctionInattention = Some 0,
      S7DischargeType = Some ''H'', ArrivalToDeathDays = None,
      S7RankinDischarge = Some 2, S2ThrombolysisNoReason = None\<rparr>"

definition raw_no_stroke_type :: raw_row where
  "raw_no_stroke_type = raw_example\<lparr>S2StrokeType := None\<rparr>"

definition all_nihss_missing :: "raw_row \<Rightarrow> raw_row" where
  "all_nihss_missing raw =
     raw\<lparr>S2NihssArrivalLoc := None, S2NihssArrivalLocQuestions := None,
         S2NihssArrivalLocCommands := None, S2NihssArrivalBestGaze := None,
         S2NihssArrivalVisual := None, S2NihssArrivalFacialPalsy := None,
         S2NihssArrivalMotorArmLeft := None, S2NihssArrivalMotorArmRight := None,
         S2NihssArrivalMotorLegLeft := None, S2NihssArrivalMotorLegRight := None,
         S2NihssArrivalLimbAtaxia := None, S2NihssArrivalSensory := None,
         S2NihssArrivalBestLanguage := None, S2NihssArrivalDysarthria := None,
         S2NihssArrivalExtinctionInattention := None\<rparr>"

text \<open>
  A cleaned row that passes every patient filter, for a given team, thrombolysis
  indicator and onset-to-arrival time.
\<close>

definition patient :: "string \<Rightarrow> int \<Rightarrow> num \<Rightarrow> clean_row" where
  "patient team ivt onset =
     \<lparr>id = 0, stroke_team = team, male = Some 1, infarction = Some 1,
      onset_to_arrival_time = onset, onset_known = Some 1, precise_onset_known = Some 1,
      onset_during_sleep = Some 0, arrive_by_ambulance = Some 1,
      call_to_ambulance_arrival_time = None, ambulance_on_scene_time = None,
      ambulance_travel_to_hospital_time = None, ambulance_wait_time_at_hospital = None,
      month = Some 1, year = Some 2016, arrival_to_scan_time = Some 20,
      thrombolysis = Some ivt, scan_to_thrombolysis_time = (if ivt = 1 then Some 30 else None),
      thrombectomy = Some 0, arrival_to_thrombectomy_time = None,
      congestive_heart_failure = Some 0, hypertension = Some 0, atrial_fibrillation = Some 0,
      diabetes = Some 0, prior_stroke_tia = Some 0, afib_antiplatelet = Some 0,
      afib_anticoagulant = Some 0, afib_vit_k_anticoagulant = Some 0,
      afib_doac_anticoagulant = Some 0, afib_heparin_anticoagulant = Some 0,
      new_afib_diagnosis = Some 0, any_afib_diagnosis = Some 0, prior_disability = Some 0,
      nihss_complete = Some 1, discharge_destination = Some ''home'', death = Some 0,
      discharge_disability = Some 2, thrombolysis_no_not_available = Some 0,
      thrombolysis_no_out_of_hours = Some 0, thrombolysis_no_scan_not_quick_enough = Some 0,
      thrombolysis_no_no_reason = Some 0\<rparr>"

text \<open>Site A: 250 admissions, 9 of them treated. Site B: 251 admissions, 10 treated.\<close>

definition two_site_table :: "clean_row list" where
  "two_site_table =
     replicate 9 (patient ''A'' 1 (Some 60)) @ replicate 241 (patient ''A'' 0 (Some 60)) @
     replicate 10 (patient ''B'' 1 (Some 60)) @ replicate 241 (patient ''B'' 0 (Some 60))"

text \<open>One site with 250 admissions, 10 of them treated, all with the same onset cell.\<close>

definition one_site_table :: "num \<Rightarrow> clean_row list" where
  "one_site_table onset =
     replicate 10 (patient ''A'' 1 onset) @ replicate 240 (patient ''A'' 0 onset)"

definition env_first_seen :: py_env where
  "env_first_seen = \<lparr>set_list = remdups, randbelow42 = (\<lambda>n i. 0)\<rparr>"

definition cohort_example :: cohort_row where
  "cohort_example = add_features (map_of [(''A'', 1)]) (patient ''A'' 1 (Some 60))"




section \<open>Properties of the Cleaner\<close>

subsection \<open>Row-wise minimum\<close>

lemma fold_min_Min: "fold min vs (v::int) = Min (set (v # vs))"
  by (rule Min.set_eq_fold [symmetric])

lemma set_map_filter_cells: "set (List.map_filter (\<lambda>c. c) cs) = {v. Some v \<in> set cs}"
  by (induction cs) (auto simp: List.map_filter_simps split: option.splits)

lemma row_min_None: "row_min cs = None \<longleftrightarrow> (\<forall>c \<in> set cs. c = None)"
proof (cases "List.map_filter (\<lambda>c. c) cs")
  case Nil
  then have "{v. Some v \<in> set cs} = {}" using set_map_filter_cells [of cs] by simp
  then have "\<forall>c \<in> set cs. c = None" by (metis (mono_tags, lifting) Collect_empty_eq not_None_eq)
  then show ?thesis using Nil by (simp add: row_min_def)
next
  case (Cons v vs)
  then have "v \<in> set (List.map_filter (\<lambda>c. c) cs)" by simp
  then have "Some v \<in> set cs" unfolding set_map_filter_cells by simp
  then have "\<not> (\<forall>c \<in> set cs. c = None)" by auto
  then show ?thesis using Cons by (simp add: row_min_def)
qed

lemma row_min_Some:
  "row_min cs = Some m \<longleftrightarrow> Some m \<in> set cs \<and> (\<forall>v. Some v \<in> set cs \<longrightarrow> m \<le> v)"
proof (cases "List.map_filter (\<lambda>c. c) cs")
  case Nil
  then have "{v. Some v \<in> set cs} = {}" using set_map_filter_cells [of cs] by simp
  then show ?thesis using Nil by (auto simp: row_min_def)
next
  case (Cons v vs)
  then have s: "set (v # vs) = {v. Some v \<in> set cs}"
    using set_map_filter_cells [of cs] by simp
  have "row_min cs = Some (Min (set (v # vs)))"
    using Cons by (simp add: row_min_def fold_min_Min del: set_simps)
  moreover have "Min (set (v # vs)) = m \<longleftrightarrow> m \<in> set (v # vs) \<and> (\<forall>w \<in> set (v # vs). m \<le> w)"
    by (metis List.finite_set Min_eqI Min_in Min_le list.distinct(1) set_empty)
  ultimately show ?thesis unfolding s by auto
qed

subsection \<open>What each pass can do to a row\<close>

lemma set_amb_col_nan_twice [simp]:
  "set_amb_col_nan (set_amb_col_nan c) = set_amb_col_nan c"
  "set_amb_col_nan (c\<lparr>arrive_by_ambulance := x\<rparr>) = (set_amb_col_nan c)\<lparr>arrive_by_ambulance := x\<rparr>"
  by (simp_all add: set_amb_col_nan_def)

lemma ambulance_pass_cases:
  "fst (ambulance_pass c i) = c \<or> fst (ambulance_pass c i) = set_amb_col_nan c \<or>
   fst (ambulance_pass c i) = (set_amb_col_nan c)\<lparr>arrive_by_ambulance := None\<rparr>"
  by (simp add: ambulance_pass_def Let_def)

lemma onset_pass_cases:
  "fst (onset_pass c i) = c \<or> fst (onset_pass c i) = c\<lparr>onset_to_arrival_time := None\<rparr>"
  by (simp add: onset_pass_def Let_def)

lemma anticoag_pass_cases:
  "fst (anticoag_pass c i) = c \<or>
   fst (anticoag_pass c i) = c\<lparr>afib_anticoagulant := None, afib_vit_k_anticoagulant := None,
                           afib_doac_anticoagulant := None,
                           afib_heparin_anticoagulant := None\<rparr>"
  by (simp add: anticoag_pass_def Let_def)

lemma death_pass_cases:
  "fst (death_pass c i) = c \<or>
   fst (death_pass c i) = c\<lparr>death := None, discharge_disability := None,
                           discharge_destination := None\<rparr>"
  by (simp add: death_pass_def Let_def)

lemma clean_and_log_fst:
  "\<exists>i1 i2 i3 i4. fst (clean_and_log raw) =
     fst (death_pass (fst (anticoag_pass (fst (onset_pass
       (fst (ambulance_pass (create_clean raw) i1)) i2)) i3)) i4)"
  by (simp add: clean_and_log_def Let_def split_def) blast

lemma clean_and_log_both:
  "\<exists>i1 i2 i3 i4 c3. clean_and_log raw =
     (fst (death_pass (fst (anticoag_pass c3 i3)) i4),
      (snd (death_pass (fst (anticoag_pass c3 i3)) (snd (anticoag_pass c3 i3))))
        \<lparr>missing_stroke_type :=
           isnull (infarction (fst (death_pass (fst (anticoag_pass c3 i3)) i4)))\<rparr>) \<and>
     c3 = fst (onset_pass (fst (ambulance_pass (create_clean raw) i1)) i2)"
  by (simp add: clean_and_log_def Let_def split_def) blast

lemma ambulance_pass_keeps:
  "infarction (fst (ambulance_pass c i)) = infarction c"
  "afib_anticoagulant (fst (ambulance_pass c i)) = afib_anticoagulant c"
  "afib_vit_k_anticoagulant (fst (ambulance_pass c i)) = afib_vit_k_anticoagulant c"
  "afib_doac_anticoagulant (fst (ambulance_pass c i)) = afib_doac_anticoagulant c"
  "afib_heparin_anticoagulant (fst (ambulance_pass c i)) = afib_heparin_anticoagulant c"
  "congestive_heart_failure (fst (ambulance_pass c i)) = congestive_heart_failure c"
  "hypertension (fst (ambulance_pass c i)) = hypertension c"
  "atrial_fibrillation (fst (ambulance_pass c i)) = atrial_fibrillation c"
  "diabetes (fst (ambulance_pass c i)) = diabetes c"
  "prior_stroke_tia (fst (ambulance_pass c i)) = prior_stroke_tia c"
  "afib_antiplatelet (fst (ambulance_pass c i)) = afib_antiplatelet c"
  "nihss_complete (fst (ambulance_pass c i)) = nihss_complete c"
  using ambulance_pass_cases [of c i]
  by (elim disjE; simp add: set_amb_col_nan_def)+

lemma onset_pass_keeps:
  "infarction (fst (onset_pass c i)) = infarction c"
  "afib_anticoagulant (fst (onset_pass c i)) = afib_anticoagulant c"
  "afib_vit_k_anticoagulant (fst (onset_pass c i)) = afib_vit_k_anticoagulant c"
  "afib_doac_anticoagulant (fst (onset_pass c i)) = afib_doac_anticoagulant c"
  "afib_heparin_anticoagulant (fst (onset_pass c i)) = afib_heparin_anticoagulant c"
  "congestive_heart_failure (fst (onset_pass c i)) = congestive_heart_failure c"
  "hypertension (fst (onset_pass c i)) = hypertension c"
  "atrial_fibrillation (fst (onset_pass c i)) = atrial_fibrillation c"
  "diabetes (fst (onset_pass c i)) = diabetes c"
  "prior_stroke_tia (fst (onset_pass c i)) = prior_stroke_tia c"
  "afib_antiplatelet (fst (onset_pass c i)) = afib_antiplatelet c"
  "nihss_complete (fst (onset_pass c i)) = nihss_complete c"
  using onset_pass_cases [of c i]
  by (elim disjE; simp)+

lemma death_pass_keeps:
  "infarction (fst (death_pass c i)) = infarction c"
  "afib_anticoagulant (fst (death_pass c i)) = afib_anticoagulant c"
  "afib_vit_k_anticoagulant (fst (death_pass c i)) = afib_vit_k_anticoagulant c"
  "afib_doac_anticoagulant (fst (death_pass c i)) = afib_doac_anticoagulant c"
  "afib_heparin_anticoagulant (fst (death_pass c i)) = afib_heparin_anticoagulant c"
  "congestive_heart_failure (fst (death_pass c i)) = congestive_heart_failure c"
  "hypertension (fst (death_pass c i)) = hypertension c"
  "atrial_fibrillation (fst (death_pass c i)) = atrial_fibrillation c"
  "diabetes (fst (death_pass c i)) = diabetes c"
  "prior_stroke_tia (fst (death_pass c i)) = prior_stroke_tia c"
  "afib_antiplatelet (fst (death_pass c i)) = afib_antiplatelet c"
  "nihss_complete (fst (death_pass c i)) = nihss_complete c"
  using death_pass_cases [of c i]
  by (elim disjE; simp)+

lemma anticoag_pass_keeps:
  "infarction (fst (anticoag_pass c i)) = infarction c"
  "congestive_heart_failure (fst (anticoag_pass c i)) = congestive_heart_failure c"
  "hypertension (fst (anticoag_pass c i)) = hypertension c"
  "atrial_fibrillation (fst (anticoag_pass c i)) = atrial_fibrillation c"
  "diabetes (fst (anticoag_pass c i)) = diabetes c"
  "prior_stroke_tia (fst (anticoag_pass c i)) = prior_stroke_tia c"
  "afib_antiplatelet (fst (anticoag_pass c i)) = afib_antiplatelet c"
  "nihss_complete (fst (anticoag_pass c i)) = nihss_complete c"
  using anticoag_pass_cases [of c i]
  by (elim disjE; simp)+

lemma anticoag_pass_fields:
  "afib_anticoagulant (fst (anticoag_pass c i)) =
     (if anticoag_discrep (snd (anticoag_pass c i)) then None else afib_anticoagulant c)"
  "afib_vit_k_anticoagulant (fst (anticoag_pass c i)) =
     (if anticoag_discrep (snd (anticoag_pass c i)) then None else afib_vit_k_anticoagulant c)"
  "afib_doac_anticoagulant (fst (anticoag_pass c i)) =
     (if anticoag_discrep (snd (anticoag_pass c i)) then None else afib_doac_anticoagulant c)"
  "afib_heparin_anticoagulant (fst (anticoag_pass c i)) =
     (if anticoag_discrep (snd (anticoag_pass c i)) then None else afib_heparin_anticoagulant c)"
  "anticoag_discrep (snd (anticoag_pass c i)) =
     (cell_eq (afib_anticoagulant c) 0 \<and>
            (cell_eq (afib_vit_k_anticoagulant c) 1 \<or>
             cell_eq (afib_doac_anticoagulant c) 1 \<or>
             cell_eq (afib_heparin_anticoagulant c) 1))"
  by (auto simp: anticoag_pass_def Let_def)

lemma death_pass_snd:
  "anticoag_discrep (snd (death_pass c i)) = anticoag_discrep i"
  by (simp add: death_pass_def Let_def)

subsection \<open>The cells of the clean row in terms of the raw row\<close>

lemma comorbid_yes_no: "series_map comorbid_marker None c = yes_no c"
  by (cases c) (auto simp: series_map_def comorbid_marker_def yes_no_def)

lemma anticoag_map_yes_no:
  "series_map anticoag_type_map (Some 0) (yes_no c) =
     (case yes_no c of None \<Rightarrow> Some 0 | Some v \<Rightarrow> Some v)"
  by (simp add: series_map_def anticoag_type_map_def yes_no_def)

lemma create_clean_plain:
  "infarction (create_clean raw) = series_map infarction_dict None (S2StrokeType raw)"
  "nihss_complete (create_clean raw) = Some (if row_min (nihss raw) = Some (- 1) then 0 else 1)"
  "congestive_heart_failure (create_clean raw) = yes_no (S2CoMCongestiveHeartFailure raw)"
  "hypertension (create_clean raw) = yes_no (S2CoMHypertension raw)"
  "atrial_fibrillation (create_clean raw) = yes_no (S2CoMAtrialFibrillation raw)"
  "diabetes (create_clean raw) = yes_no (S2CoMDiabetes raw)"
  "prior_stroke_tia (create_clean raw) = yes_no (S2CoMStrokeTIA raw)"
  "afib_vit_k_anticoagulant (create_clean raw) =
     series_map anticoag_type_map (Some 0) (S2CoMAFAnticoagulentVitK raw)"
  "afib_doac_anticoagulant (create_clean raw) =
     series_map anticoag_type_map (Some 0) (S2CoMAFAnticoagulentDOAC raw)"
  "afib_heparin_anticoagulant (create_clean raw) =
     series_map anticoag_type_map (Some 0) (S2CoMAFAnticoagulentHeparin raw)"
  by (simp_all add: create_clean_def Let_def comorbid_yes_no)

lemma create_clean_antiplatelet:
  "afib_antiplatelet (create_clean raw) =
     (if yes_no (S2CoMAtrialFibrillation raw) = Some 0 \<and> yes_no (S2CoMAFAntiplatelet raw) = None
      then Some 0 else yes_no (S2CoMAFAntiplatelet raw))"
  by (simp add: create_clean_def Let_def comorbid_yes_no cell_eq_def isnull_def
       split: option.splits)

lemma create_clean_anticoagulant:
  "afib_anticoagulant (create_clean raw) =
     (case yes_no (S2CoMAFAnticoagulent raw) of None \<Rightarrow> Some 0 | Some v \<Rightarrow> Some v)"
  by (simp add: create_clean_def Let_def comorbid_yes_no anticoag_map_yes_no)

lemma final_fields:
  "infarction (fst (clean_and_log raw)) = infarction (create_clean raw)"
  "nihss_complete (fst (clean_and_log raw)) = nihss_complete (create_clean raw)"
  "congestive_heart_failure (fst (clean_and_log raw)) = congestive_heart_failure (create_clean raw)"
  "hypertension (fst (clean_and_log raw)) = hypertension (create_clean raw)"
  "atrial_fibrillation (fst (clean_and_log raw)) = atrial_fibrillation (create_clean raw)"
  "diabetes (fst (clean_and_log raw)) = diabetes (create_clean raw)"
  "prior_stroke_tia (fst (clean_and_log raw)) = prior_stroke_tia (create_clean raw)"
  "afib_antiplatelet (fst (clean_and_log raw)) = afib_antiplatelet (create_clean raw)"
  using clean_and_log_fst [of raw]
  by (auto simp: ambulance_pass_keeps onset_pass_keeps anticoag_pass_keeps death_pass_keeps)

lemma final_anticoag:
  "anticoag_discrep (snd (clean_and_log raw)) =
     (cell_eq (afib_anticoagulant (create_clean raw)) 0 \<and>
      (cell_eq (afib_vit_k_anticoagulant (create_clean raw)) 1 \<or>
       cell_eq (afib_doac_anticoagulant (create_clean raw)) 1 \<or>
       cell_eq (afib_heparin_anticoagulant (create_clean raw)) 1))"
  "afib_anticoagulant (fst (clean_and_log raw)) =
     (if anticoag_discrep (snd (clean_and_log raw)) then None
      else afib_anticoagulant (create_clean raw))"
  "afib_vit_k_anticoagulant (fst (clean_and_log raw)) =
     (if anticoag_discrep (snd (clean_and_log raw)) then None
      else afib_vit_k_anticoagulant (create_clean raw))"
  "afib_doac_anticoagulant (fst (clean_and_log raw)) =
     (if anticoag_discrep (snd (clean_and_log raw)) then None
      else afib_doac_anticoagulant (create_clean raw))"
  "afib_heparin_anticoagulant (fst (clean_and_log raw)) =
     (if anticoag_discrep (snd (clean_and_log raw)) then None
      else afib_heparin_anticoagulant (create_clean raw))"
proof -
  obtain i1 i2 i3 i4 c3 where cl: "clean_and_log raw =
     (fst (death_pass (fst (anticoag_pass c3 i3)) i4),
      (snd (death_pass (fst (anticoag_pass c3 i3)) (snd (anticoag_pass c3 i3))))
        \<lparr>missing_stroke_type :=
           isnull (infarction (fst (death_pass (fst (anticoag_pass c3 i3)) i4)))\<rparr>)"
    and c3: "c3 = fst (onset_pass (fst (ambulance_pass (create_clean raw) i1)) i2)"
    using clean_and_log_both [of raw] by blast
  have k: "afib_anticoagulant c3 = afib_anticoagulant (create_clean raw)"
    "afib_vit_k_anticoagulant c3 = afib_vit_k_anticoagulant (create_clean raw)"
    "afib_doac_anticoagulant c3 = afib_doac_anticoagulant (create_clean raw)"
    "afib_heparin_anticoagulant c3 = afib_heparin_anticoagulant (create_clean raw)"
    by (simp_all add: c3 ambulance_pass_keeps onset_pass_keeps)
  have d: "anticoag_discrep (snd (clean_and_log raw)) =
           anticoag_discrep (snd (anticoag_pass c3 i3))"
    by (simp add: cl death_pass_snd)
  show "anticoag_discrep (snd (clean_and_log raw)) =
     (cell_eq (afib_anticoagulant (create_clean raw)) 0 \<and>
      (cell_eq (afib_vit_k_anticoagulant (create_clean raw)) 1 \<or>
       cell_eq (afib_doac_anticoagulant (create_clean raw)) 1 \<or>
       cell_eq (afib_heparin_anticoagulant (create_clean raw)) 1))"
    unfolding d anticoag_pass_fields(5) k ..
  show "afib_anticoagulant (fst (clean_and_log raw)) =
     (if anticoag_discrep (snd (clean_and_log raw)) then None
      else afib_anticoagulant (create_clean raw))"
    unfolding d by (simp add: cl death_pass_keeps anticoag_pass_fields(1) k)
  show "afib_vit_k_anticoagulant (fst (clean_and_log raw)) =
     (if anticoag_discrep (snd (clean_and_log raw)) then None
      else afib_vit_k_anticoagulant (create_clean raw))"
    unfolding d by (simp add: cl death_pass_keeps anticoag_pass_fields(2) k)
  show "afib_doac_anticoagulant (fst (clean_and_log raw)) =
     (if anticoag_discrep (snd (clean_and_log raw)) then None
      else afib_doac_anticoagulant (create_clean raw))"
    unfolding d by (simp add: cl death_pass_keeps anticoag_pass_fields(3) k)
  show "afib_heparin_anticoagulant (fst (clean_and_log raw)) =
     (if anticoag_discrep (snd (clean_and_log raw)) then None
      else afib_heparin_anticoagulant (create_clean raw))"
    unfolding d by (simp add: cl death_pass_keeps anticoag_pass_fields(4) k)
qed

lemma anticoag_discrep_in_raw:
  "anticoag_discrep (snd (clean_and_log raw)) = anticoag_discrep_raw raw"
  unfolding final_anticoag(1) create_clean_plain create_clean_anticoagulant
    anticoag_discrep_raw_def
  by (cases "S2CoMAFAnticoagulentVitK raw"; cases "S2CoMAFAnticoagulentDOAC raw";
      cases "S2CoMAFAnticoagulentHeparin raw")
     (auto simp: cell_eq_def series_map_def anticoag_type_map_def yes_no_def)

lemma missing_stroke_type_flag:
  "missing_stroke_type (snd (clean_and_log raw)) = isnull (infarction (fst (clean_and_log raw)))"
  using clean_and_log_both [of raw] by auto

lemma infarction_unset:
  "isnull (infarction (fst (clean_and_log raw))) = stroke_type_unset raw"
  by (cases "S2StrokeType raw")
     (auto simp: final_fields create_clean_plain series_map_def infarction_dict_def
        stroke_type_unset_def isnull_def)

lemma notnull_infarction:
  "notnull (infarction (fst (clean_and_log raw))) = (\<not> stroke_type_unset raw)"
  using infarction_unset [of raw] by (simp add: notnull_def isnull_def)

subsection \<open>The two saved tables\<close>

lemma clean_raw_data_fst:
  "fst (clean_raw_data raw_data) =
     filter (\<lambda>r. notnull (infarction r)) (map (\<lambda>raw. fst (clean_and_log raw)) raw_data)"
  by (simp add: clean_raw_data_def Let_def)

lemma clean_raw_data_snd:
  "snd (clean_raw_data raw_data) = map (\<lambda>raw. snd (clean_and_log raw)) raw_data"
  by (simp add: clean_raw_data_def Let_def)

lemma length_filter_compl:
  "length (filter P xs) = length xs - length (filter (\<lambda>x. \<not> P x) xs)"
  using sum_length_filter_compl [of P xs] by simp

lemma length_new_cleaned:
  "length (fst (clean_raw_data raw_data)) =
     length raw_data - length (filter stroke_type_unset raw_data)"
proof -
  have "fst (clean_raw_data raw_data) =
      map (\<lambda>raw. fst (clean_and_log raw)) (filter (\<lambda>raw. \<not> stroke_type_unset raw) raw_data)"
    by (simp only: clean_raw_data_fst filter_map comp_def notnull_infarction)
  then show ?thesis
    using length_filter_compl [of "\<lambda>raw. \<not> stroke_type_unset raw" raw_data] by simp
qed

lemma stroke_type_unset_examples [simp]:
  "stroke_type_unset raw_no_stroke_type" "\<not> stroke_type_unset raw_example"
  by (simp_all add: stroke_type_unset_def raw_no_stroke_type_def raw_example_def)

text \<open>
  C1, as the notebook has it. The issue log is saved as it is, one row per raw row; only
  the cleaned table loses the rows without stroke type. The cleaned table has as many
  rows as the raw table minus the rows with unset stroke type, the column
  \<open>missing_stroke_type\<close> of the issue log marks exactly those raw rows, and the rows of
  the cleaned table are the clean rows whose row of the issue log is not marked, in
  order.
\<close>

theorem issues_one_row_per_raw_row:
  "length (snd (clean_raw_data raw_data)) = length raw_data \<and>
   length (fst (clean_raw_data raw_data)) =
     length raw_data - length (filter stroke_type_unset raw_data) \<and>
   map missing_stroke_type (snd (clean_raw_data raw_data)) = map stroke_type_unset raw_data \<and>
   fst (clean_raw_data raw_data) =
     map fst (filter (\<lambda>(c, i). \<not> missing_stroke_type i) (map clean_and_log raw_data))"
proof (intro conjI)
  show "length (snd (clean_raw_data raw_data)) = length raw_data"
    by (simp add: clean_raw_data_snd)
  show "length (fst (clean_raw_data raw_data)) =
     length raw_data - length (filter stroke_type_unset raw_data)"
    by (rule length_new_cleaned)
  show "map missing_stroke_type (snd (clean_raw_data raw_data)) = map stroke_type_unset raw_data"
    by (simp add: clean_raw_data_snd missing_stroke_type_flag infarction_unset)
  show "fst (clean_raw_data raw_data) =
     map fst (filter (\<lambda>(c, i). \<not> missing_stroke_type i) (map clean_and_log raw_data))"
    by (simp only: clean_raw_data_fst filter_map comp_def split_def notnull_infarction
        missing_stroke_type_flag infarction_unset map_map fst_conv snd_conv)
qed

theorem issues_one_row_per_raw_row_example:
  "length (snd (clean_raw_data [raw_example, raw_no_stroke_type])) = 2 \<and>
   length (fst (clean_raw_data [raw_example, raw_no_stroke_type])) = 1 \<and>
   map missing_stroke_type (snd (clean_raw_data [raw_example, raw_no_stroke_type]))
     = [False, True]"
proof -
  note c = issues_one_row_per_raw_row [of "[raw_example, raw_no_stroke_type]"]
  from c [THEN conjunct1]
  have "length (snd (clean_raw_data [raw_example, raw_no_stroke_type])) = 2" by simp
  moreover from c [THEN conjunct2, THEN conjunct1]
  have "length (fst (clean_raw_data [raw_example, raw_no_stroke_type])) = 1" by simp
  moreover from c [THEN conjunct2, THEN conjunct2, THEN conjunct1]
  have "map missing_stroke_type
      (snd (clean_raw_data [raw_example, raw_no_stroke_type])) = [False, True]"
    by simp
  ultimately show ?thesis by blast
qed

text \<open>
  C1 as stated fails on a raw table of two rows, the second without stroke type: the
  issue log keeps two rows, not two minus one, and is one row longer than the saved
  cleaned table.
\<close>

theorem issues_not_filtered_with_cleaned:
  "length (snd (clean_raw_data [raw_example, raw_no_stroke_type]))
     \<noteq> length [raw_example, raw_no_stroke_type]
         - length (filter stroke_type_unset [raw_example, raw_no_stroke_type]) \<and>
   length (snd (clean_raw_data [raw_example, raw_no_stroke_type]))
     \<noteq> length (fst (clean_raw_data [raw_example, raw_no_stroke_type]))"
  by (simp add: clean_raw_data_snd length_new_cleaned)

subsection \<open>Severity assessment complete\<close>

lemma nihss_complete_cells:
  "nihss_complete (fst (clean_and_log raw)) =
     Some (if row_min (nihss raw) = Some (- 1) then 0 else 1)"
  "nihss_complete (fst (clean_and_log raw)) = Some 0 \<longleftrightarrow>
      Some (- 1) \<in> set (nihss raw) \<and> (\<forall>v. Some v \<in> set (nihss raw) \<longrightarrow> - 1 \<le> v)"
  by (simp_all add: final_fields create_clean_plain row_min_Some)

lemma nihss_none:
  "S2NihssArrivalLoc raw = None \<and> S2NihssArrivalLocQuestions raw = None \<and>
    S2NihssArrivalLocCommands raw = None \<and> S2NihssArrivalBestGaze raw = None \<and>
    S2NihssArrivalVisual raw = None \<and> S2NihssArrivalFacialPalsy raw = None \<and>
    S2NihssArrivalMotorArmLeft raw = None \<and> S2NihssArrivalMotorArmRight raw = None \<and>
    S2NihssArrivalMotorLegLeft raw = None \<and> S2NihssArrivalMotorLegRight raw = None \<and>
    S2NihssArrivalLimbAtaxia raw = None \<and> S2NihssArrivalSensory raw = None \<and>
    S2NihssArrivalBestLanguage raw = None \<and> S2NihssArrivalDysarthria raw = None \<and>
    S2NihssArrivalExtinctionInattention raw = None
   \<Longrightarrow> nihss_complete (fst (clean_and_log raw)) = Some 1"
  by (simp add: final_fields create_clean_plain row_min_None [THEN iffD2] nihss_def)

text \<open>
  C10. \<open>nihss_complete\<close> of the clean row is 0 when the row-wise minimum of the
  fifteen raw sub-score cells \<open>S2NihssArrivalLoc\<close>, ...,
  \<open>S2NihssArrivalExtinctionInattention\<close> is -1, and 1 otherwise. The minimum skips
  the missing cells: \<open>nihss_complete\<close> is 0 exactly when one of the fifteen cells holds
  -1 and none of them holds a smaller value. When all fifteen cells are missing the
  minimum is missing, the test against -1 fails and \<open>nihss_complete\<close> is 1.
\<close>

theorem nihss_complete_row_min:
  "nihss_complete (fst (clean_and_log raw)) =
     Some (if row_min
            [S2NihssArrivalLoc raw, S2NihssArrivalLocQuestions raw,
             S2NihssArrivalLocCommands raw, S2NihssArrivalBestGaze raw,
             S2NihssArrivalVisual raw, S2NihssArrivalFacialPalsy raw,
             S2NihssArrivalMotorArmLeft raw, S2NihssArrivalMotorArmRight raw,
             S2NihssArrivalMotorLegLeft raw, S2NihssArrivalMotorLegRight raw,
             S2NihssArrivalLimbAtaxia raw, S2NihssArrivalSensory raw,
             S2NihssArrivalBestLanguage raw, S2NihssArrivalDysarthria raw,
             S2NihssArrivalExtinctionInattention raw] = Some (- 1) then 0 else 1) \<and>
   (nihss_complete (fst (clean_and_log raw)) = Some 0 \<longleftrightarrow>
      Some (- 1) \<in> set
            [S2NihssArrivalLoc raw, S2NihssArrivalLocQuestions raw,
             S2NihssArrivalLocCommands raw, S2NihssArrivalBestGaze raw,
             S2NihssArrivalVisual raw, S2NihssArrivalFacialPalsy raw,
             S2NihssArrivalMotorArmLeft raw, S2NihssArrivalMotorArmRight raw,
             S2NihssArrivalMotorLegLeft raw, S2NihssArrivalMotorLegRight raw,
             S2NihssArrivalLimbAtaxia raw, S2NihssArrivalSensory raw,
             S2NihssArrivalBestLanguage raw, S2NihssArrivalDysarthria raw,
             S2NihssArrivalExtinctionInattention raw] \<and>
      (\<forall>v. Some v \<in> set
            [S2NihssArrivalLoc raw, S2NihssArrivalLocQuestions raw,
             S2NihssArrivalLocCommands raw, S2NihssArrivalBestGaze raw,
             S2NihssArrivalVisual raw, S2NihssArrivalFacialPalsy raw,
             S2NihssArrivalMotorArmLeft raw, S2NihssArrivalMotorArmRight raw,
             S2NihssArrivalMotorLegLeft raw, S2NihssArrivalMotorLegRight raw,
             S2NihssArrivalLimbAtaxia raw, S2NihssArrivalSensory raw,
             S2NihssArrivalBestLanguage raw, S2NihssArrivalDysarthria raw,
             S2NihssArrivalExtinctionInattention raw] \<longrightarrow> - 1 \<le> v)) \<and>
   (nihss_complete (fst (clean_and_log raw)) = Some 0 \<or>
    nihss_complete (fst (clean_and_log raw)) = Some 1) \<and>
   (S2NihssArrivalLoc raw = None \<and> S2NihssArrivalLocQuestions raw = None \<and>
    S2NihssArrivalLocCommands raw = None \<and> S2NihssArrivalBestGaze raw = None \<and>
    S2NihssArrivalVisual raw = None \<and> S2NihssArrivalFacialPalsy raw = None \<and>
    S2NihssArrivalMotorArmLeft raw = None \<and> S2NihssArrivalMotorArmRight raw = None \<and>
    S2NihssArrivalMotorLegLeft raw = None \<and> S2NihssArrivalMotorLegRight raw = None \<and>
    S2NihssArrivalLimbAtaxia raw = None \<and> S2NihssArrivalSensory raw = None \<and>
    S2NihssArrivalBestLanguage raw = None \<and> S2NihssArrivalDysarthria raw = None \<and>
    S2NihssArrivalExtinctionInattention raw = None
    \<longrightarrow> nihss_complete (fst (clean_and_log raw)) = Some 1)"
proof (intro conjI)
  show "nihss_complete (fst (clean_and_log raw)) = Some 0 \<or>
    nihss_complete (fst (clean_and_log raw)) = Some 1"
    by (simp add: nihss_complete_cells(1))
qed (use nihss_complete_cells [of raw, unfolded nihss_def] nihss_none [of raw] in blast)+

theorem nihss_complete_examples:
  "S2NihssArrivalSensory (raw_example\<lparr>S2NihssArrivalSensory := Some (- 1)\<rparr>) = Some (- 1) \<and>
   nihss_complete (fst (clean_and_log (raw_example\<lparr>S2NihssArrivalSensory := Some (- 1)\<rparr>)))
     = Some 0 \<and>
   nihss_complete (fst (clean_and_log raw_example)) = Some 1 \<and>
   S2NihssArrivalLoc (all_nihss_missing raw_example) = None \<and>
   nihss_complete (fst (clean_and_log (all_nihss_missing raw_example))) = Some 1"
proof -
  note a = nihss_complete_row_min [of "raw_example\<lparr>S2NihssArrivalSensory := Some (- 1)\<rparr>",
      THEN conjunct2, THEN conjunct1]
  have 1: "nihss_complete
      (fst (clean_and_log (raw_example\<lparr>S2NihssArrivalSensory := Some (- 1)\<rparr>))) = Some 0"
    unfolding a by (simp add: raw_example_def)
  note b = nihss_complete_row_min [of raw_example, THEN conjunct2]
  have "nihss_complete (fst (clean_and_log raw_example)) \<noteq> Some 0"
    unfolding b [THEN conjunct1] by (simp add: raw_example_def)
  with b [THEN conjunct2, THEN conjunct1]
  have 2: "nihss_complete (fst (clean_and_log raw_example)) = Some 1" by blast
  have 3: "nihss_complete (fst (clean_and_log (all_nihss_missing raw_example))) = Some 1"
    using nihss_complete_row_min [of "all_nihss_missing raw_example",
        THEN conjunct2, THEN conjunct2, THEN conjunct2]
    by (simp add: all_nihss_missing_def)
  from 1 2 3 show ?thesis by (simp add: all_nihss_missing_def)
qed

subsection \<open>Comorbidity indicators\<close>

text \<open>
  C5, as the notebook has it. In the clean row, congestive heart failure, hypertension,
  atrial fibrillation, diabetes and prior stroke/TIA are the raw answer read as Y/N/NB to
  1/0/0, missing staying missing. The antiplatelet indicator is read the same way,
  except that a missing value becomes 0 when atrial fibrillation is 0. The
  "on anticoagulant" indicator does not keep a missing value: it is mapped a second
  time, which turns missing into 0, like the three anticoagulant sub-type columns; all
  four are set to missing together when the anticoagulant discrepancy is flagged, that
  is when the raw "on anticoagulant" answer is not Y while a raw sub-type is 1.
\<close>

theorem comorbidity_null_semantics:
  "congestive_heart_failure (fst (clean_and_log raw)) = yes_no (S2CoMCongestiveHeartFailure raw) \<and>
   hypertension (fst (clean_and_log raw)) = yes_no (S2CoMHypertension raw) \<and>
   atrial_fibrillation (fst (clean_and_log raw)) = yes_no (S2CoMAtrialFibrillation raw) \<and>
   diabetes (fst (clean_and_log raw)) = yes_no (S2CoMDiabetes raw) \<and>
   prior_stroke_tia (fst (clean_and_log raw)) = yes_no (S2CoMStrokeTIA raw) \<and>
   afib_antiplatelet (fst (clean_and_log raw)) =
     (if yes_no (S2CoMAtrialFibrillation raw) = Some 0 \<and> yes_no (S2CoMAFAntiplatelet raw) = None
      then Some 0 else yes_no (S2CoMAFAntiplatelet raw)) \<and>
   afib_anticoagulant (fst (clean_and_log raw)) =
     (if anticoag_discrep_raw raw then None
      else case yes_no (S2CoMAFAnticoagulent raw) of None \<Rightarrow> Some 0 | Some v \<Rightarrow> Some v) \<and>
   afib_vit_k_anticoagulant (fst (clean_and_log raw)) =
     (if anticoag_discrep_raw raw then None
      else series_map anticoag_type_map (Some 0) (S2CoMAFAnticoagulentVitK raw)) \<and>
   afib_doac_anticoagulant (fst (clean_and_log raw)) =
     (if anticoag_discrep_raw raw then None
      else series_map anticoag_type_map (Some 0) (S2CoMAFAnticoagulentDOAC raw)) \<and>
   afib_heparin_anticoagulant (fst (clean_and_log raw)) =
     (if anticoag_discrep_raw raw then None
      else series_map anticoag_type_map (Some 0) (S2CoMAFAnticoagulentHeparin raw)) \<and>
   anticoag_discrep (snd (clean_and_log raw)) = anticoag_discrep_raw raw"
  by (simp add: final_fields final_anticoag(2-5) create_clean_plain create_clean_antiplatelet
      create_clean_anticoagulant anticoag_discrep_in_raw)

lemma raw_example_comorbidities:
  "yes_no (S2CoMHypertension raw_example) = Some 1"
  "yes_no (S2CoMDiabetes raw_example) = None"
  "yes_no (S2CoMStrokeTIA raw_example) = Some 0"
  "yes_no (S2CoMAtrialFibrillation raw_example) = Some 0"
  "yes_no (S2CoMAFAntiplatelet raw_example) = None"
  "yes_no (S2CoMAFAnticoagulent raw_example) = None"
  "\<not> anticoag_discrep_raw raw_example"
  by (simp_all add: yes_no_def raw_example_def anticoag_discrep_raw_def)

theorem comorbidity_example:
  "hypertension (fst (clean_and_log raw_example)) = Some 1 \<and>
   diabetes (fst (clean_and_log raw_example)) = None \<and>
   prior_stroke_tia (fst (clean_and_log raw_example)) = Some 0 \<and>
   afib_antiplatelet (fst (clean_and_log raw_example)) = Some 0 \<and>
   afib_anticoagulant (fst (clean_and_log raw_example)) = Some 0"
  using comorbidity_null_semantics [of raw_example]
  by (simp add: raw_example_comorbidities)

text \<open>
  C5 as stated fails on the example row: its raw "on anticoagulant" answer is missing,
  the indicator is not the antiplatelet one, and yet the clean row holds 0, not missing.
\<close>

theorem anticoagulant_missing_becomes_zero:
  "S2CoMAFAnticoagulent raw_example = None \<and>
   afib_anticoagulant (fst (clean_and_log raw_example)) = Some 0"
proof
  show "S2CoMAFAnticoagulent raw_example = None" by (simp add: raw_example_def)
  have "\<not> anticoag_discrep (snd (clean_and_log raw_example))"
    by (simp add: anticoag_discrep_in_raw raw_example_comorbidities)
  then show "afib_anticoagulant (fst (clean_and_log raw_example)) = Some 0"
    by (simp add: final_anticoag(2) create_clean_anticoagulant raw_example_comorbidities)
qed

subsection \<open>Indicator columns\<close>

lemma indicator_maps:
  "indicator_value (series_map gender None c)"
  "indicator_value (series_map infarction_dict None c)"
  "indicator_value (series_map onset_known_dict None c)"
  "indicator_value (series_map precise_onset_known_dict None c)"
  "indicator_value (series_map sleep None c)"
  "indicator_value (series_map by_ambulance None c)"
  "indicator_value (series_map thrombolysis_dict None c)"
  "indicator_value (series_map comorbid_marker None c)"
  "indicator_value (series_map new_afib (Some 0) c)"
  "indicator_value (make_no_thrombolysis ''TNA'' c)"
  "indicator_value (make_no_thrombolysis ''OTSH'' c)"
  "indicator_value (make_no_thrombolysis ''USQE'' c)"
  "indicator_value (make_no_thrombolysis ''N'' c)"
  by (cases c; simp add: indicator_value_def series_map_def gender_def infarction_dict_def
      onset_known_dict_def precise_onset_known_dict_def sleep_def by_ambulance_def
      thrombolysis_dict_def comorbid_marker_def new_afib_def make_no_thrombolysis_def Let_def)+

lemma indicator_anticoag: "indicator_value (series_map anticoag_type_map (Some 0) c)"
  by (cases c) (simp_all add: indicator_value_def series_map_def anticoag_type_map_def)

lemma indicator_row_max:
  "indicator_value a \<Longrightarrow> indicator_value b \<Longrightarrow> indicator_value (row_max [a, b])"
  by (auto simp: indicator_value_def row_max_def List.map_filter_simps)

lemma create_clean_indicators:
  "list_all indicator_value (indicator_fields (create_clean raw))"
  by (simp add: indicator_fields_def create_clean_def Let_def indicator_maps indicator_anticoag
        indicator_row_max)
     (simp add: indicator_value_def)

lemma indicator_fields_nulled:
  "list_all indicator_value (indicator_fields c) \<Longrightarrow>
     list_all indicator_value (indicator_fields (set_amb_col_nan c))"
  "list_all indicator_value (indicator_fields c) \<Longrightarrow>
     list_all indicator_value
       (indicator_fields ((set_amb_col_nan c)\<lparr>arrive_by_ambulance := None\<rparr>))"
  "list_all indicator_value (indicator_fields c) \<Longrightarrow>
     list_all indicator_value (indicator_fields (c\<lparr>onset_to_arrival_time := None\<rparr>))"
  "list_all indicator_value (indicator_fields c) \<Longrightarrow>
     list_all indicator_value (indicator_fields
       (c\<lparr>afib_anticoagulant := None, afib_vit_k_anticoagulant := None,
          afib_doac_anticoagulant := None, afib_heparin_anticoagulant := None\<rparr>))"
  "list_all indicator_value (indicator_fields c) \<Longrightarrow>
     list_all indicator_value (indicator_fields
       (c\<lparr>death := None, discharge_disability := None, discharge_destination := None\<rparr>))"
  by (simp_all add: indicator_fields_def set_amb_col_nan_def indicator_value_def)

lemma pass_indicators:
  assumes "list_all indicator_value (indicator_fields c)"
  shows "list_all indicator_value (indicator_fields (fst (ambulance_pass c i)))"
    and "list_all indicator_value (indicator_fields (fst (onset_pass c i)))"
    and "list_all indicator_value (indicator_fields (fst (anticoag_pass c i)))"
    and "list_all indicator_value (indicator_fields (fst (death_pass c i)))"
  using assms ambulance_pass_cases [of c i] onset_pass_cases [of c i]
    anticoag_pass_cases [of c i] death_pass_cases [of c i]
  by (auto simp: indicator_fields_nulled)

lemma clean_and_log_indicators:
  "list_all indicator_value (indicator_fields (fst (clean_and_log raw)))"
proof -
  obtain i1 i2 i3 i4 where "fst (clean_and_log raw) =
     fst (death_pass (fst (anticoag_pass (fst (onset_pass
       (fst (ambulance_pass (create_clean raw) i1)) i2)) i3)) i4)"
    using clean_and_log_fst by blast
  then show ?thesis
    by (simp add: pass_indicators create_clean_indicators)
qed

text \<open>
  C8. For every raw row, every derived indicator column of the clean row, as it stands
  after the four passes that deal with unusual results, holds 0, 1 or missing; so does
  every row of the saved cleaned table.
\<close>

theorem indicators_zero_one_or_missing:
  "list_all indicator_value (indicator_fields (fst (clean_and_log raw))) \<and>
   (\<forall>r \<in> set (fst (clean_raw_data raw_data)).
      list_all indicator_value (indicator_fields r))"
  using clean_and_log_indicators by (auto simp: clean_raw_data_fst)

theorem indicators_example:
  "fst (clean_raw_data [raw_example, raw_no_stroke_type]) \<noteq> [] \<and>
   list_all indicator_value (indicator_fields (fst (clean_and_log raw_example))) \<and>
   list_all indicator_value
     (indicator_fields (hd (fst (clean_raw_data [raw_example, raw_no_stroke_type]))))"
proof -
  note t = indicators_zero_one_or_missing [of raw_example "[raw_example, raw_no_stroke_type]"]
  have "length (fst (clean_raw_data [raw_example, raw_no_stroke_type])) = 1"
    by (simp add: length_new_cleaned)
  then have ne: "fst (clean_raw_data [raw_example, raw_no_stroke_type]) \<noteq> []" by auto
  then have "hd (fst (clean_raw_data [raw_example, raw_no_stroke_type]))
               \<in> set (fst (clean_raw_data [raw_example, raw_no_stroke_type]))"
    by (rule hd_in_set)
  with t [THEN conjunct2]
  have "list_all indicator_value
     (indicator_fields (hd (fst (clean_raw_data [raw_example, raw_no_stroke_type]))))"
    by blast
  with ne t [THEN conjunct1] show ?thesis by blast
qed

section \<open>Properties of the Reformatter\<close>

lemma add_features_sel:
  "scan_to_thrombolysis_time (add_features d r) = scan_to_thrombolysis_time r"
  "onset_to_arrival_time (add_features d r) = onset_to_arrival_time r"
  "arrival_to_scan_time (add_features d r) = arrival_to_scan_time r"
  "thrombolysis (add_features d r) = thrombolysis r"
  "stroke_team (add_features d r) = stroke_team r"
  "discharge_disability (add_features d r) = discharge_disability r"
  "onset_to_thrombolysis_time (add_features d r) = calculate_onset_to_thrombolysis r"
  "stroke_team_id (add_features d r) = d (stroke_team r)"
  by (simp_all add: add_features_def clean_row.defs cohort_row.defs)

subsection \<open>The patient filters\<close>

lemma filter_patients_eq:
  "filter_patients all_data =
     filter (\<lambda>r. cell_ge (year r) 2016 \<and> cell_eq (infarction r) 1 \<and>
                 cell_eq (arrive_by_ambulance r) 1 \<and> cell_eq (thrombectomy r) 0 \<and>
                 cell_ge (prior_disability r) 0 \<and> cell_ge (discharge_disability r) 0 \<and>
                 (onset_to_arrival_time r = None \<or> cell_gt (onset_to_arrival_time r) 0) \<and>
                 cell_eq (onset_known r) 1) all_data"
  unfolding filter_patients_def Let_def filter_filter
  by (intro filter_cong) (auto simp: cell_le_def cell_gt_def split: option.splits)

subsection \<open>The hospital filters\<close>

lemma filter_stroke_team_groupby:
  "filter_stroke_team data k (map (\<lambda>t. (t, f t)) (remdups (map stroke_team data)))
     = filter (\<lambda>r. f (stroke_team r) \<ge> k) data"
proof -
  have "set (map fst (filter (\<lambda>(t, v). v \<ge> k)
               (map (\<lambda>t. (t, f t)) (remdups (map stroke_team data)))))
        = {t \<in> stroke_team ` set data. f t \<ge> k}"
    by (force simp: image_iff)
  then show ?thesis
    unfolding filter_stroke_team_def Let_def
    by (intro filter_cong) auto
qed

lemma filter_hospitals_eq:
  "filter_hospitals data =
     filter (\<lambda>r. treatments (filter (\<lambda>q. admissions data (stroke_team q) \<ge> 250) data)
                            (stroke_team r) \<ge> 10)
       (filter (\<lambda>r. admissions data (stroke_team r) \<ge> 250) data)"
  unfolding filter_hospitals_def Let_def groupby_count_def groupby_sum_thrombolysis_def
    filter_stroke_team_groupby min_hospital_admission_threshold_def
    min_hospital_thrombolysis_threshold_def ..

lemma treatments_of_kept_team:
  assumes "admissions data t \<ge> k"
  shows "treatments (filter (\<lambda>q. admissions data (stroke_team q) \<ge> k) data) t
         = treatments data t"
proof -
  have "filter (\<lambda>r. stroke_team r = t)
          (filter (\<lambda>q. admissions data (stroke_team q) \<ge> k) data)
        = filter (\<lambda>r. stroke_team r = t) data"
    unfolding filter_filter using assms by (intro filter_cong) auto
  then show ?thesis by (simp add: treatments_def)
qed

lemma patient_sel [simp]:
  "stroke_team (patient t i on) = t"
  "thrombolysis (patient t i on) = Some i"
  "onset_to_arrival_time (patient t i on) = on"
  by (simp_all add: patient_def)

lemma nansum_simps [simp]:
  "nansum [] = 0"
  "nansum (xs @ ys) = nansum xs + nansum ys"
  "nansum (replicate n (Some v)) = int n * v"
  "nansum (replicate n None) = 0"
  by (simp_all add: nansum_def sum_list_replicate)

lemma two_site_counts:
  "admissions two_site_table ''A'' = 250" "treatments two_site_table ''A'' = 9"
  "admissions two_site_table ''B'' = 251" "treatments two_site_table ''B'' = 10"
  by (simp_all add: admissions_def treatments_def two_site_table_def)

text \<open>
  C4. The two hospital gates run one after the other, both with \<open>\<ge>\<close>: the rows of the
  sites with at least 250 admissions are kept, then, with the treatments counted on the
  table already filtered, the rows of the sites with at least 10 treatments. On any
  table of two sites, one with exactly 250 admissions and 9 treatments and one with 251
  admissions and 10 treatments, exactly the rows of the second site survive.
\<close>

theorem hospital_gates_sequential:
  "filter_hospitals data =
     (let kept = filter (\<lambda>r. admissions data (stroke_team r) \<ge> 250) data
      in filter (\<lambda>r. treatments kept (stroke_team r) \<ge> 10) kept) \<and>
   ((\<forall>r \<in> set data. stroke_team r = a \<or> stroke_team r = b) \<and> a \<noteq> b \<and>
    admissions data a = 250 \<and> treatments data a = 9 \<and>
    admissions data b = 251 \<and> treatments data b = 10
    \<longrightarrow> filter_hospitals data = filter (\<lambda>r. stroke_team r = b) data)"
proof (intro conjI impI)
  show "filter_hospitals data =
     (let kept = filter (\<lambda>r. admissions data (stroke_team r) \<ge> 250) data
      in filter (\<lambda>r. treatments kept (stroke_team r) \<ge> 10) kept)"
    by (simp add: filter_hospitals_eq Let_def)
next
  assume h: "(\<forall>r \<in> set data. stroke_team r = a \<or> stroke_team r = b) \<and> a \<noteq> b \<and>
    admissions data a = 250 \<and> treatments data a = 9 \<and>
    admissions data b = 251 \<and> treatments data b = 10"
  have ta: "treatments (filter (\<lambda>q. admissions data (stroke_team q) \<ge> 250) data) a = 9"
    using h treatments_of_kept_team [of 250 data a] by simp
  have tb: "treatments (filter (\<lambda>q. admissions data (stroke_team q) \<ge> 250) data) b = 10"
    using h treatments_of_kept_team [of 250 data b] by simp
  show "filter_hospitals data = filter (\<lambda>r. stroke_team r = b) data"
    unfolding filter_hospitals_eq filter_filter
    using h ta tb by (intro filter_cong) auto
qed

theorem hospital_gates_two_sites:
  "admissions two_site_table ''A'' = 250 \<and> treatments two_site_table ''A'' = 9 \<and>
   admissions two_site_table ''B'' = 251 \<and> treatments two_site_table ''B'' = 10 \<and>
   filter_hospitals two_site_table =
     replicate 10 (patient ''B'' 1 (Some 60)) @ replicate 241 (patient ''B'' 0 (Some 60))"
proof -
  have "filter_hospitals two_site_table = filter (\<lambda>r. stroke_team r = ''B'') two_site_table"
    using hospital_gates_sequential [of two_site_table "''A''" "''B''"] two_site_counts
    by (simp add: two_site_table_def)
  then show ?thesis using two_site_counts by (simp add: two_site_table_def)
qed

subsection \<open>The whole notebook on the one-site table\<close>

lemma patient_passes_filters:
  "cell_ge (year (patient t i on)) 2016" "cell_eq (infarction (patient t i on)) 1"
  "cell_eq (arrive_by_ambulance (patient t i on)) 1" "cell_eq (thrombectomy (patient t i on)) 0"
  "cell_ge (prior_disability (patient t i on)) 0"
  "cell_ge (discharge_disability (patient t i on)) 0"
  "cell_eq (onset_known (patient t i on)) 1"
  by (simp_all add: patient_def cell_ge_def cell_eq_def)

lemma strip_A [simp]: "strip ''A'' = ''A''"
  by (simp add: strip_def rstrip_def is_space_def)

lemma patient_strip [simp]:
  "strip t = t \<Longrightarrow>
   (patient t i on)\<lparr>stroke_team := strip (stroke_team (patient t i on))\<rparr> = patient t i on"
  by (simp add: patient_def)

lemma one_site_reformat_length:
  "on = None \<or> cell_gt on 0 \<Longrightarrow>
   length (reformat env teamcode_file (one_site_table on)) = 250"
  by (simp add: reformat_def Let_def filter_patients_eq one_site_table_def
      patient_passes_filters strip_stroke_team_def filter_hospitals_eq admissions_def
      treatments_def edit_scan_to_thrombolysis_def)

lemma reformat_origin:
  assumes "r \<in> set (reformat env teamcode_file all_data)"
  shows "\<exists>r0 \<in> set (filter_patients all_data).
           onset_to_arrival_time r = onset_to_arrival_time r0"
proof -
  from assms obtain r2 where r2: "r2 \<in> set (edit_scan_to_thrombolysis
        (filter_hospitals (strip_stroke_team (filter_patients all_data))))"
      and r: "r = add_features (teams_code_dict_of env teamcode_file
        (edit_scan_to_thrombolysis
           (filter_hospitals (strip_stroke_team (filter_patients all_data))))) r2"
    by (auto simp: reformat_def Let_def)
  from r2 obtain r1
    where r1: "r1 \<in> set (filter_hospitals (strip_stroke_team (filter_patients all_data)))"
      and e1: "onset_to_arrival_time r2 = onset_to_arrival_time r1"
    by (auto simp: edit_scan_to_thrombolysis_def split: if_splits)
  from r1 have "r1 \<in> set (strip_stroke_team (filter_patients all_data))"
    by (simp add: filter_hospitals_eq)
  then obtain r0 where "r0 \<in> set (filter_patients all_data)"
      and "onset_to_arrival_time r1 = onset_to_arrival_time r0"
    by (auto simp: strip_stroke_team_def)
  then show ?thesis using r e1 by (auto simp: add_features_sel)
qed

text \<open>
  C6, as the notebook has it. The onset-to-arrival filter removes the rows whose
  duration is zero or negative and keeps the rows whose duration is missing: a row
  passes the filter chain exactly when it passes the seven other filters and its
  onset-to-arrival time is missing or positive. So every row of the output cohort has
  an onset-to-arrival time that is missing or strictly greater than 0.
\<close>

theorem onset_filter_keeps_missing_and_positive:
  "(\<forall>r. r \<in> set (filter_patients all_data) \<longleftrightarrow>
        r \<in> set all_data \<and> cell_ge (year r) 2016 \<and> cell_eq (infarction r) 1 \<and>
        cell_eq (arrive_by_ambulance r) 1 \<and> cell_eq (thrombectomy r) 0 \<and>
        cell_ge (prior_disability r) 0 \<and> cell_ge (discharge_disability r) 0 \<and>
        (onset_to_arrival_time r = None \<or> cell_gt (onset_to_arrival_time r) 0) \<and>
        cell_eq (onset_known r) 1) \<and>
   (\<forall>r \<in> set (reformat env teamcode_file all_data).
        onset_to_arrival_time r = None \<or> cell_gt (onset_to_arrival_time r) 0)"
proof (intro conjI allI ballI)
  fix r
  show "r \<in> set (filter_patients all_data) \<longleftrightarrow>
        r \<in> set all_data \<and> cell_ge (year r) 2016 \<and> cell_eq (infarction r) 1 \<and>
        cell_eq (arrive_by_ambulance r) 1 \<and> cell_eq (thrombectomy r) 0 \<and>
        cell_ge (prior_disability r) 0 \<and> cell_ge (discharge_disability r) 0 \<and>
        (onset_to_arrival_time r = None \<or> cell_gt (onset_to_arrival_time r) 0) \<and>
        cell_eq (onset_known r) 1"
    unfolding filter_patients_eq by simp
next
  fix r assume "r \<in> set (reformat env teamcode_file all_data)"
  then obtain r0 where "r0 \<in> set (filter_patients all_data)"
      and "onset_to_arrival_time r = onset_to_arrival_time r0"
    using reformat_origin by blast
  then show "onset_to_arrival_time r = None \<or> cell_gt (onset_to_arrival_time r) 0"
    unfolding filter_patients_eq by simp
qed

theorem onset_filter_example:
  "patient ''A'' 1 None \<in> set (filter_patients (one_site_table None)) \<and>
   reformat env_first_seen None (one_site_table None) \<noteq> [] \<and>
   (onset_to_arrival_time (hd (reformat env_first_seen None (one_site_table None))) = None \<or>
    cell_gt (onset_to_arrival_time (hd (reformat env_first_seen None (one_site_table None)))) 0)"
proof (intro conjI)
  note t = onset_filter_keeps_missing_and_positive [of "one_site_table None" env_first_seen None]
  have "patient ''A'' 1 None \<in> set (one_site_table None)"
    by (simp add: one_site_table_def)
  then show "patient ''A'' 1 None \<in> set (filter_patients (one_site_table None))"
    using t [THEN conjunct1] by (simp add: patient_passes_filters)
  have "length (reformat env_first_seen None (one_site_table None)) = 250"
    by (simp add: one_site_reformat_length)
  then show ne: "reformat env_first_seen None (one_site_table None) \<noteq> []" by auto
  then have "hd (reformat env_first_seen None (one_site_table None))
               \<in> set (reformat env_first_seen None (one_site_table None))"
    by (rule hd_in_set)
  with t [THEN conjunct2]
  show "onset_to_arrival_time (hd (reformat env_first_seen None (one_site_table None))) = None \<or>
    cell_gt (onset_to_arrival_time (hd (reformat env_first_seen None (one_site_table None)))) 0"
    by blast
qed

text \<open>
  C6 as stated fails on the one-site table whose 250 rows all have a missing
  onset-to-arrival time: the rows survive the filters and the hospital gates, so the
  output cohort has rows whose onset-to-arrival time is not greater than 0.
\<close>

theorem missing_onset_survives_reformat:
  "\<not> (\<forall>r \<in> set (reformat env_first_seen None (one_site_table None)).
        cell_gt (onset_to_arrival_time r) 0)"
proof
  assume a: "\<forall>r \<in> set (reformat env_first_seen None (one_site_table None)).
        cell_gt (onset_to_arrival_time r) 0"
  have "length (reformat env_first_seen None (one_site_table None)) = 250"
    by (simp add: one_site_reformat_length)
  then have "reformat env_first_seen None (one_site_table None) \<noteq> []" by auto
  then obtain r where r: "r \<in> set (reformat env_first_seen None (one_site_table None))"
    by (cases "reformat env_first_seen None (one_site_table None)") auto
  then obtain r0 where "r0 \<in> set (filter_patients (one_site_table None))"
      and e: "onset_to_arrival_time r = onset_to_arrival_time r0"
    using reformat_origin by blast
  then have "r0 \<in> set (one_site_table None)" by (simp add: filter_patients_eq)
  then have "onset_to_arrival_time r0 = None" by (auto simp: one_site_table_def)
  with a r e show False by (auto simp: cell_gt_def)
qed

subsection \<open>Onset to thrombolysis\<close>

lemma edit_scan_sentinel:
  "r \<in> set (edit_scan_to_thrombolysis data) \<Longrightarrow>
     cell_eq (thrombolysis r) 0 \<Longrightarrow> scan_to_thrombolysis_time r = Some (- 100)"
  by (auto simp: edit_scan_to_thrombolysis_def set_duration_not_get_thrombolysis_def
      split: if_splits)

text \<open>
  C3. In every row of the reformatted table, \<open>onset_to_thrombolysis_time\<close> is -100
  when the row's \<open>scan_to_thrombolysis_time\<close> is -100, and otherwise the sum of
  \<open>onset_to_arrival_time\<close>, \<open>arrival_to_scan_time\<close> and
  \<open>scan_to_thrombolysis_time\<close> (missing when one of them is); and
  \<open>scan_to_thrombolysis_time\<close> is -100 wherever the thrombolysis indicator is 0.
\<close>

theorem onset_to_thrombolysis_sentinel_or_sum:
  "\<forall>r \<in> set (reformat env teamcode_file all_data).
     (cell_eq (thrombolysis r) 0 \<longrightarrow> scan_to_thrombolysis_time r = Some (- 100)) \<and>
     onset_to_thrombolysis_time r =
       (if scan_to_thrombolysis_time r = Some (- 100) then Some (- 100)
        else cell_add (cell_add (onset_to_arrival_time r) (arrival_to_scan_time r))
                      (scan_to_thrombolysis_time r))"
  by (auto simp: reformat_def Let_def add_features_sel calculate_onset_to_thrombolysis_def
      dest: edit_scan_sentinel)

lemma one_site_before_features:
  "edit_scan_to_thrombolysis (filter_hospitals (strip_stroke_team
      (filter_patients (one_site_table (Some 60)))))
   = replicate 10 (patient ''A'' 1 (Some 60)) @
     replicate 240 ((patient ''A'' 0 (Some 60))\<lparr>scan_to_thrombolysis_time := Some (- 100)\<rparr>)"
proof -
  have "cell_eq (Some (0::int)) 0" "\<not> cell_eq (Some (1::int)) 0"
    by (simp_all add: cell_eq_def)
  then show ?thesis
    by (simp add: filter_patients_eq one_site_table_def patient_passes_filters
      strip_stroke_team_def filter_hospitals_eq admissions_def treatments_def
      edit_scan_to_thrombolysis_def set_duration_not_get_thrombolysis_def cell_gt_def)
qed

lemma one_site_output_columns:
  "map onset_to_thrombolysis_time (reformat env teamcode_file (one_site_table (Some 60)))
     = replicate 10 (Some 110) @ replicate 240 (Some (- 100))"
  unfolding reformat_def Let_def one_site_before_features
  by (simp add: add_features_sel comp_def calculate_onset_to_thrombolysis_def patient_def
      cell_add_def)

lemma one_site_first_row:
  "scan_to_thrombolysis_time (hd (reformat env teamcode_file (one_site_table (Some 60))))
     = Some 30"
  "onset_to_arrival_time (hd (reformat env teamcode_file (one_site_table (Some 60))))
     = Some 60"
  "arrival_to_scan_time (hd (reformat env teamcode_file (one_site_table (Some 60))))
     = Some 20"
  unfolding reformat_def Let_def one_site_before_features
  by (simp_all add: hd_map hd_append add_features_sel patient_def)

lemma one_site_last_row:
  "thrombolysis (last (reformat env teamcode_file (one_site_table (Some 60)))) = Some 0"
  unfolding reformat_def Let_def one_site_before_features
  by (simp add: last_map add_features_sel patient_def)

theorem onset_to_thrombolysis_example:
  "reformat env_first_seen None (one_site_table (Some 60)) \<noteq> [] \<and>
   onset_to_thrombolysis_time (hd (reformat env_first_seen None (one_site_table (Some 60))))
     = Some 110 \<and>
   cell_eq (thrombolysis (last (reformat env_first_seen None (one_site_table (Some 60))))) 0 \<and>
   scan_to_thrombolysis_time (last (reformat env_first_seen None (one_site_table (Some 60))))
     = Some (- 100) \<and>
   onset_to_thrombolysis_time (last (reformat env_first_seen None (one_site_table (Some 60))))
     = Some (- 100)"
proof -
  note t = onset_to_thrombolysis_sentinel_or_sum
    [of env_first_seen None "one_site_table (Some 60)"]
  have "length (reformat env_first_seen None (one_site_table (Some 60))) = 250"
    by (simp add: one_site_reformat_length cell_gt_def)
  then have ne: "reformat env_first_seen None (one_site_table (Some 60)) \<noteq> []" by auto
  have h: "hd (reformat env_first_seen None (one_site_table (Some 60)))
            \<in> set (reformat env_first_seen None (one_site_table (Some 60)))"
    using ne by (rule hd_in_set)
  have l: "last (reformat env_first_seen None (one_site_table (Some 60)))
            \<in> set (reformat env_first_seen None (one_site_table (Some 60)))"
    using ne by (rule last_in_set)
  have first: "onset_to_thrombolysis_time
       (hd (reformat env_first_seen None (one_site_table (Some 60)))) = Some 110"
    using bspec [OF t h] by (simp add: one_site_first_row cell_add_def)
  have untreated:
    "cell_eq (thrombolysis (last (reformat env_first_seen None (one_site_table (Some 60))))) 0"
    by (simp add: one_site_last_row cell_eq_def)
  have scan: "scan_to_thrombolysis_time
       (last (reformat env_first_seen None (one_site_table (Some 60)))) = Some (- 100)"
    using bspec [OF t l] untreated by blast
  have composite: "onset_to_thrombolysis_time
       (last (reformat env_first_seen None (one_site_table (Some 60)))) = Some (- 100)"
    using bspec [OF t l] scan by simp
  from ne first untreated scan composite show ?thesis by blast
qed

subsection \<open>Team codes\<close>

text \<open>
  C7 on the notebook. With no lookup file, the codes are given in the order of the
  shuffled list, and the shuffle with the fixed seed is a fixed rearrangement of
  positions: it starts from \<open>list(set(data['stroke_team']))\<close>, whose order is not
  fixed by the table. For a table with the two teams A and B, an interpreter that
  enumerates the set as A, B and one that enumerates it as B, A give different codes,
  whatever the generator draws.
\<close>

theorem team_codes_depend_on_set_order:
  "teams_code_dict_of \<lparr>set_list = remdups, randbelow42 = draw\<rparr> None
       [patient ''A'' 1 (Some 60), patient ''B'' 1 (Some 60)]
   \<noteq> teams_code_dict_of \<lparr>set_list = (\<lambda>xs. rev (remdups xs)), randbelow42 = draw\<rparr> None
       [patient ''A'' 1 (Some 60), patient ''B'' 1 (Some 60)]"
proof -
  have "draw 2 1 mod 2 = 0 \<or> draw 2 1 mod 2 = 1" by arith
  then have "create_teams_code_dict draw [''A'', ''B''] ''A''
        \<noteq> create_teams_code_dict draw [''B'', ''A''] ''A''"
    by (auto simp: create_teams_code_dict_def shuffle_def Let_def numeral_2_eq_2)
  then have "create_teams_code_dict draw [''A'', ''B'']
        \<noteq> create_teams_code_dict draw [''B'', ''A'']" by metis
  then show ?thesis by (simp add: teams_code_dict_of_def)
qed

section \<open>Properties of the Fold Splitter\<close>

subsection \<open>The stratification value\<close>

lemma of_char_digit_char: "d < 10 \<Longrightarrow> of_char (digit_char d) = 48 + d"
  by (simp add: digit_char_def)

lemma minus_is_no_digit: "d < 10 \<Longrightarrow> CHR ''-'' \<noteq> digit_char d"
proof
  assume d: "d < 10" and e: "CHR ''-'' = digit_char d"
  from e have "of_char (digit_char d) = (of_char (CHR ''-'') :: nat)" by simp
  with of_char_digit_char [OF d] show False by simp
qed

lemma str_nat_no_minus: "CHR ''-'' \<notin> set (str_nat n)"
proof (induction n rule: str_nat.induct)
  case (1 n)
  show ?case
  proof (cases "n < 10")
    case True
    then show ?thesis by (subst str_nat.simps) (simp add: minus_is_no_digit)
  next
    case False
    then show ?thesis using 1 by (subst str_nat.simps) (simp add: minus_is_no_digit)
  qed
qed

lemma nat_of_str_nat: "nat_of_str (str_nat n) = n"
proof (induction n rule: str_nat.induct)
  case (1 n)
  show ?case
  proof (cases "n < 10")
    case True
    then show ?thesis
      by (subst str_nat.simps) (simp add: nat_of_str_def of_char_digit_char)
  next
    case False
    then have "nat_of_str (str_nat (n div 10)) = n div 10" using 1 by simp
    then show ?thesis using False
      by (subst str_nat.simps) (simp add: nat_of_str_def of_char_digit_char)
  qed
qed

lemma str_nat_inj: "str_nat m = str_nat n \<Longrightarrow> m = n"
  by (metis nat_of_str_nat)

lemma str_int_inj: "0 \<le> v \<Longrightarrow> 0 \<le> w \<Longrightarrow> str_int v = str_int w \<Longrightarrow> v = w"
  using str_nat_inj [of "nat v" "nat w"] by (simp add: str_int_def)

lemma str_num_inj:
  assumes "cell_ge c 0" "cell_ge c' 0" "str_num t c = str_num t c'"
  shows "c = c'"
proof -
  from assms(1) obtain v where v: "c = Some v" "0 \<le> v"
    by (cases c) (auto simp: cell_ge_def)
  from assms(2) obtain w where w: "c' = Some w" "0 \<le> w"
    by (cases c') (auto simp: cell_ge_def)
  from assms(3) v w have "str_int v = str_int w"
    by (cases t) (simp_all add: str_num_def)
  with v w show ?thesis using str_int_inj by simp
qed

lemma str_num_no_minus:
  assumes "cell_ge c 0"
  shows "CHR ''-'' \<notin> set (str_num t c)"
proof -
  from assms obtain v where v: "c = Some v" "0 \<le> v"
    by (cases c) (auto simp: cell_ge_def)
  then show ?thesis
    by (cases t) (simp_all add: str_num_def str_int_def str_nat_no_minus)
qed

lemma last_separator_splits:
  assumes "a @ c # x = b @ c # y" "c \<notin> set x" "c \<notin> set y"
  shows "a = b \<and> x = y"
  using assms
proof (induction a arbitrary: b)
  case Nil
  then show ?case by (cases b) auto
next
  case (Cons a0 as)
  then show ?case by (cases b) auto
qed

text \<open>
  C2, as the notebook has it. The stratification value of a row is the site label (the
  \<open>stroke_team\<close> column, not the anonymised code), a hyphen, and the outcome label as
  a string. The anonymised code does not enter it. It is one composite key: for rows
  with a recorded outcome (0 or more, as the Reformatter leaves them), two rows have the
  same value exactly when they have the same site label and the same outcome.
\<close>

theorem strat_is_team_hyphen_outcome:
  "strat t r = stroke_team r @ ''-'' @ str_num t (discharge_disability r) \<and>
   strat t (r\<lparr>stroke_team_id := code\<rparr>) = strat t r \<and>
   (cell_ge (discharge_disability r) 0 \<and> cell_ge (discharge_disability r') 0 \<longrightarrow>
      (strat t r = strat t r' \<longleftrightarrow>
         stroke_team r = stroke_team r' \<and> discharge_disability r = discharge_disability r'))"
proof (intro conjI impI)
  assume h: "cell_ge (discharge_disability r) 0 \<and> cell_ge (discharge_disability r') 0"
  show "strat t r = strat t r' \<longleftrightarrow>
         stroke_team r = stroke_team r' \<and> discharge_disability r = discharge_disability r'"
  proof
    assume "strat t r = strat t r'"
    then have "stroke_team r @ CHR ''-'' # str_num t (discharge_disability r)
             = stroke_team r' @ CHR ''-'' # str_num t (discharge_disability r')"
      by (simp add: strat_def)
    then have "stroke_team r = stroke_team r' \<and>
               str_num t (discharge_disability r) = str_num t (discharge_disability r')"
      using h str_num_no_minus [of "discharge_disability r" t]
        str_num_no_minus [of "discharge_disability r'" t]
        last_separator_splits [of "stroke_team r" "CHR ''-''"
           "str_num t (discharge_disability r)"
           "stroke_team r'" "str_num t (discharge_disability r')"]
      by blast
    then show "stroke_team r = stroke_team r' \<and>
               discharge_disability r = discharge_disability r'"
      using h str_num_inj by blast
  next
    assume "stroke_team r = stroke_team r' \<and> discharge_disability r = discharge_disability r'"
    then show "strat t r = strat t r'" by (simp add: strat_def)
  qed
qed (simp_all add: strat_def)

lemma cohort_example_sel:
  "stroke_team cohort_example = ''A''"
  "discharge_disability cohort_example = Some 2"
  "stroke_team_id cohort_example = Some 1"
  by (simp_all add: cohort_example_def add_features_sel patient_def)

theorem strat_example:
  "cell_ge (discharge_disability cohort_example) 0 \<and>
   cell_ge (discharge_disability (cohort_example\<lparr>discharge_disability := Some 3\<rparr>)) 0 \<and>
   strat Float64 cohort_example
     \<noteq> strat Float64 (cohort_example\<lparr>discharge_disability := Some 3\<rparr>)"
proof -
  have h: "cell_ge (discharge_disability cohort_example) 0 \<and>
           cell_ge (discharge_disability (cohort_example\<lparr>discharge_disability := Some 3\<rparr>)) 0"
    by (simp add: cohort_example_sel cell_ge_def)
  note s = strat_is_team_hyphen_outcome
      [of Float64 cohort_example code "cohort_example\<lparr>discharge_disability := Some 3\<rparr>"]
  from s [THEN conjunct2, THEN conjunct2] h
  have "strat Float64 cohort_example
          = strat Float64 (cohort_example\<lparr>discharge_disability := Some 3\<rparr>) \<longleftrightarrow>
        stroke_team cohort_example
          = stroke_team (cohort_example\<lparr>discharge_disability := Some 3\<rparr>) \<and>
        discharge_disability cohort_example
          = discharge_disability (cohort_example\<lparr>discharge_disability := Some 3\<rparr>)"
    by blast
  then have "strat Float64 cohort_example
          \<noteq> strat Float64 (cohort_example\<lparr>discharge_disability := Some 3\<rparr>)"
    by (simp add: cohort_example_sel)
  with h show ?thesis by blast
qed

text \<open>
  C2 as stated fails on the example row of team A, code 1 and outcome 2: the
  stratification value of the notebook is \<open>A-2.0\<close>, the concatenation of the code and
  the outcome label is \<open>12.0\<close>.
\<close>

theorem strat_is_not_code_and_outcome:
  "strat Float64 cohort_example = ''A-2.0'' \<and>
   spec_strat Float64 cohort_example = ''12.0'' \<and>
   strat Float64 cohort_example \<noteq> spec_strat Float64 cohort_example"
  by code_simp

subsection \<open>The folds\<close>

lemma shuffle_loop_length [simp]: "length (shuffle_loop rb i x) = length x"
  by (induction i arbitrary: x) (simp_all add: Let_def)



lemma classes_of_set [simp]: "set (classes_of y) = set y" "distinct (classes_of y)"
  by (simp_all add: classes_of_def)










lemma make_test_folds_length [simp]: "length (make_test_folds n rng y) = length y"
  by (simp add: make_test_folds_def Let_def)












end
